theory Spec2Isabelle
  imports Complex_Main "HOL-Library.Multiset"
begin

section \<open>Conventions of the embedding\<close>

text \<open>
  The development embeds the catalog-matching core of the shopping helper:
  \<^verbatim>\<open>backend/ai_scoring/quality_scorer.py\<close>, \<open>find_alternatives\<close> of
  \<^verbatim>\<open>backend/database/product_db.py\<close> and \<^verbatim>\<open>backend/ai/recommendations.py\<close>.

  \<^item> A Python \<open>float\<close> is an element of \<^typ>\<open>real\<close>: arithmetic is exact, so rounding
    errors of IEEE doubles are outside the model.
  \<^item> A Python \<open>str\<close> is a \<^typ>\<open>string\<close> of ASCII characters.
  \<^item> A \<open>dict\<close> that is only read is an association list, searched with \<^const>\<open>map_of\<close>;
    its \<open>values()\<close> are the second components in insertion order.  Every theorem is
    stated for all association lists, so in particular for those with distinct keys.
  \<^item> An exception is the left summand of a result of type \<open>py_error + 'a\<close>.
\<close>

datatype py_error =
    KeyError
  | ZeroDivisionError
  | ValueError
  | AttributeError
  | DatabaseError
  | EncoderError
  | JSONDecodeError
  | RecursionError
  | ChromaError

section \<open>Text helpers\<close>

definition is_upper :: "char \<Rightarrow> bool" where
  "is_upper c = (65 \<le> (of_char c :: nat) \<and> (of_char c :: nat) \<le> 90)"

definition lower_char :: "char \<Rightarrow> char" where
  "lower_char c = (if is_upper c then char_of ((of_char c :: nat) + 32) else c)"

definition lower :: "string \<Rightarrow> string" where
  "lower s = map lower_char s"

definition is_digit :: "char \<Rightarrow> bool" where
  "is_digit c = (48 \<le> (of_char c :: nat) \<and> (of_char c :: nat) \<le> 57)"

text \<open>The ASCII characters that \<^verbatim>\<open>\s\<close> matches in a \<open>str\<close> pattern.\<close>

definition is_space :: "char \<Rightarrow> bool" where
  "is_space c = ((of_char c :: nat) \<in> {9, 10, 11, 12, 13, 28, 29, 30, 31, 32})"

fun starts_with :: "string \<Rightarrow> string \<Rightarrow> bool" where
  "starts_with [] t = True"
| "starts_with (p # ps) [] = False"
| "starts_with (p # ps) (c # cs) = (p = c \<and> starts_with ps cs)"

text \<open>\<^verbatim>\<open>needle in text\<close> on strings.\<close>

fun contains :: "string \<Rightarrow> string \<Rightarrow> bool" where
  "contains needle [] = (needle = [])"
| "contains needle (c # cs) = (starts_with needle (c # cs) \<or> contains needle cs)"

text \<open>\<^verbatim>\<open>any(k in text for k in keywords)\<close>.\<close>

definition any_in :: "string list \<Rightarrow> string \<Rightarrow> bool" where
  "any_in keywords text = list_ex (\<lambda>k. contains k text) keywords"

text \<open>\<^verbatim>\<open>' '.join(parts)\<close>.\<close>

fun join_spaces :: "string list \<Rightarrow> string" where
  "join_spaces [] = []"
| "join_spaces [x] = x"
| "join_spaces (x # y # ys) = x @ '' '' @ join_spaces (y # ys)"

text \<open>\<^verbatim>\<open>float(digits)\<close> for a non-empty run of decimal digits.\<close>

definition digit_value :: "char \<Rightarrow> nat" where
  "digit_value c = (of_char c :: nat) - 48"

definition digits_to_nat :: "string \<Rightarrow> nat" where
  "digits_to_nat ds = foldl (\<lambda>acc c. 10 * acc + digit_value c) 0 ds"

section \<open>Dictionaries of specifications\<close>

type_synonym specs = "(string \<times> string) list"

definition has_key :: "specs \<Rightarrow> string \<Rightarrow> bool" where
  "has_key sp k = (map_of sp k \<noteq> None)"

definition get_or :: "specs \<Rightarrow> string \<Rightarrow> string \<Rightarrow> string" where
  "get_or sp k d = (case map_of sp k of Some v \<Rightarrow> v | None \<Rightarrow> d)"

text \<open>\<^verbatim>\<open>' '.join(str(v).lower() for v in specs.values())\<close>.\<close>

definition specs_text_of :: "specs \<Rightarrow> string" where
  "specs_text_of sp = join_spaces (map (\<lambda>kv. lower (snd kv)) sp)"

section \<open>Numeric extraction\<close>

text \<open>
  Every pattern the scorer passes to \<^verbatim>\<open>re.search\<close> has the shape
  \<^verbatim>\<open>(\d+)\s*LIT\<close> with a literal \<open>LIT\<close> that is empty or starts with a letter; a
  pattern is represented by its literal.  At a fixed start position the greedy attempt
  (all digits, then all white space, then the literal) is the only one that can
  succeed: giving back a white-space character or a digit leaves a character that the
  first letter of the literal does not match.  \<open>re.search\<close> returns the match at the
  leftmost start position.
\<close>

definition match_at :: "string \<Rightarrow> string \<Rightarrow> string option" where
  "match_at lit text =
     (let ds = takeWhile is_digit text;
          rest = dropWhile is_space (dropWhile is_digit text)
      in if ds \<noteq> [] \<and> starts_with lit rest then Some ds else None)"

fun re_search :: "string \<Rightarrow> string \<Rightarrow> string option" where
  "re_search lit [] = None"
| "re_search lit (c # cs) =
     (case match_at lit (c # cs) of
        Some ds \<Rightarrow> Some ds
      | None \<Rightarrow> re_search lit cs)"

text \<open>
  \<^verbatim>\<open>_extract_numeric_value\<close>: the text is lowered, the patterns are tried in order, and
  the value of the first match is multiplied by 1000 when the text contains \<open>khz\<close>.
\<close>

fun try_patterns :: "string list \<Rightarrow> string \<Rightarrow> real option" where
  "try_patterns [] text = None"
| "try_patterns (lit # lits) text =
     (case re_search lit text of
        Some ds \<Rightarrow>
          (let v = real (digits_to_nat ds)
           in Some (if contains ''khz'' text then v * 1000 else v))
      | None \<Rightarrow> try_patterns lits text)"

definition extract_numeric_value :: "string \<Rightarrow> string list \<Rightarrow> real option" where
  "extract_numeric_value text patterns =
     (if text = [] then None else try_patterns patterns (lower text))"

text \<open>
  The callers store an extracted value only when it is truthy:
  \<^verbatim>\<open>if battery_hours: normalized['battery_life'] = battery_hours\<close>; \<open>None\<close> and \<open>0.0\<close>
  are both falsy.
\<close>

definition set_if_truthy ::
  "string \<Rightarrow> real option \<Rightarrow> (string \<rightharpoonup> real) \<Rightarrow> (string \<rightharpoonup> real)" where
  "set_if_truthy k r m = (case r of None \<Rightarrow> m | Some v \<Rightarrow> if v = 0 then m else m(k \<mapsto> v))"

section \<open>Spec normalizers\<close>

definition normalize_headphones_specs :: "specs \<Rightarrow> (string \<rightharpoonup> real)" where
  "normalize_headphones_specs sp =
     (let n0 = Map.empty;
          n1 = (if has_key sp ''battery_life'' \<or> has_key sp ''Battery Life''
                then set_if_truthy ''battery_life''
                       (extract_numeric_value
                          (get_or sp ''battery_life'' (get_or sp ''Battery Life'' '''')) [''h'']) n0
                else n0);
          n2 = (if has_key sp ''driver_size'' \<or> has_key sp ''Driver Size''
                then set_if_truthy ''driver_size''
                       (extract_numeric_value
                          (get_or sp ''driver_size'' (get_or sp ''Driver Size'' '''')) [''mm'']) n1
                else n1);
          specs_text = specs_text_of sp;
          n3 = (if any_in [''noise cancellation'', ''anc'', ''active noise''] specs_text
                then n2(''noise_cancellation'' \<mapsto> 1)
                else n2(''noise_cancellation'' \<mapsto> 0));
          build_quality =
            (if any_in [''metal'', ''aluminum'', ''premium'', ''steel''] specs_text then 5
             else if any_in [''plastic'', ''basic''] specs_text then 2
             else 3);
          n4 = n3(''build_quality'' \<mapsto> build_quality)
      in set_if_truthy ''frequency_response''
           (extract_numeric_value
              (get_or sp ''frequency_response'' (get_or sp ''Frequency Response'' ''''))
              [''hz'', ''khz'']) n4)"

definition normalize_trimmer_specs :: "specs \<Rightarrow> (string \<rightharpoonup> real)" where
  "normalize_trimmer_specs sp =
     (let n1 = set_if_truthy ''runtime''
                 (extract_numeric_value
                    (get_or sp ''runtime'' (get_or sp ''Battery Life'' '''')) [''min'']) Map.empty;
          specs_text = specs_text_of sp;
          blade_quality =
            (if contains ''stainless steel'' specs_text \<or> contains ''titanium'' specs_text then 5
             else if contains ''steel'' specs_text then 4
             else if contains ''ceramic'' specs_text then 4
             else 3);
          n2 = n1(''blade_material'' \<mapsto> blade_quality);
          n3 = (if any_in [''waterproof'', ''water resistant'', ''ipx''] specs_text
                then n2(''waterproof'' \<mapsto> 1)
                else n2(''waterproof'' \<mapsto> 0))
      in set_if_truthy ''attachments''
           (extract_numeric_value
              (get_or sp ''attachments'' (get_or sp ''Accessories'' '''')) ['''']) n3)"

definition normalize_mixer_specs :: "specs \<Rightarrow> (string \<rightharpoonup> real)" where
  "normalize_mixer_specs sp =
     (let n1 = set_if_truthy ''power_output''
                 (extract_numeric_value (get_or sp ''power'' (get_or sp ''Power'' '''')) [''w''])
                 Map.empty;
          n2 = set_if_truthy ''jar_count''
                 (extract_numeric_value (get_or sp ''jars'' (get_or sp ''Jars'' '''')) ['''']) n1
      in set_if_truthy ''speed_settings''
           (extract_numeric_value
              (get_or sp ''speeds'' (get_or sp ''Speed Settings'' '''')) ['''']) n2)"

definition normalize_smartphone_specs :: "specs \<Rightarrow> (string \<rightharpoonup> real)" where
  "normalize_smartphone_specs sp =
     (let n1 = set_if_truthy ''camera''
                 (extract_numeric_value (get_or sp ''camera'' (get_or sp ''Camera'' '''')) [''mp''])
                 Map.empty;
          n2 = set_if_truthy ''battery''
                 (extract_numeric_value
                    (get_or sp ''battery'' (get_or sp ''Battery'' '''')) [''mah'']) n1
      in set_if_truthy ''ram''
           (extract_numeric_value (get_or sp ''ram'' (get_or sp ''RAM'' '''')) [''gb'']) n2)"

definition normalize_laptop_specs :: "specs \<Rightarrow> (string \<rightharpoonup> real)" where
  "normalize_laptop_specs sp = Map.empty"

definition normalize_clothing_specs :: "specs \<Rightarrow> (string \<rightharpoonup> real)" where
  "normalize_clothing_specs sp =
     (let specs_text = specs_text_of sp;
          material_quality =
            (if any_in [''cotton'', ''silk'', ''wool'', ''linen'', ''organic''] specs_text then 5
             else if any_in [''polyester'', ''synthetic'', ''blend''] specs_text then 2
             else 3)
      in Map.empty(''material'' \<mapsto> material_quality))"

definition normalize_general_specs :: "specs \<Rightarrow> (string \<rightharpoonup> real)" where
  "normalize_general_specs sp =
     Map.empty(''quality'' \<mapsto> 3, ''features'' \<mapsto> real (length sp),
               ''durability'' \<mapsto> 3, ''value'' \<mapsto> 3)"

text \<open>
  \<^verbatim>\<open>_normalize_specs\<close> dispatches on the category tag.  Its \<open>try\<close> block guards against
  values that are not text; with textual values no normalizer raises.
\<close>

definition normalize_specs :: "specs \<Rightarrow> string \<Rightarrow> (string \<rightharpoonup> real)" where
  "normalize_specs sp category =
     (if category = ''headphones'' then normalize_headphones_specs sp
      else if category = ''trimmer'' then normalize_trimmer_specs sp
      else if category = ''mixer'' then normalize_mixer_specs sp
      else if category = ''smartphone'' then normalize_smartphone_specs sp
      else if category = ''laptop'' then normalize_laptop_specs sp
      else if category = ''clothing'' then normalize_clothing_specs sp
      else normalize_general_specs sp)"

section \<open>Quality scorer\<close>

type_synonym scorecard = "(string \<times> real) list"

text \<open>
  The scorer object.  \<open>category_scorecards\<close> is the only attribute with a mutator
  (\<open>add_custom_scorecard\<close>); \<open>reference_values\<close> is assigned once by the constructor
  and is a constant of the model.
\<close>

record scorer =
  category_scorecards :: "(string \<times> scorecard) list"

definition QualityScorer_init :: scorer where
  "QualityScorer_init =
     \<lparr>category_scorecards =
        [(''headphones'',
            [(''battery_life'', 30), (''driver_size'', 25), (''noise_cancellation'', 20),
             (''build_quality'', 15), (''frequency_response'', 10)]),
         (''trimmer'',
            [(''runtime'', 30), (''blade_material'', 25), (''waterproof'', 20),
             (''attachments'', 15), (''charging_time'', 10)]),
         (''mixer'',
            [(''power_output'', 30), (''jar_count'', 25), (''speed_settings'', 20),
             (''warranty'', 15), (''safety_features'', 10)]),
         (''smartphone'',
            [(''camera'', 25), (''battery'', 25), (''processor'', 20), (''ram'', 15),
             (''storage'', 15)]),
         (''laptop'',
            [(''processor'', 30), (''ram'', 25), (''storage'', 20), (''display'', 15),
             (''battery'', 10)]),
         (''clothing'',
            [(''material'', 30), (''fit'', 25), (''durability'', 20), (''comfort'', 15),
             (''design'', 10)]),
         (''general'',
            [(''quality'', 40), (''features'', 30), (''durability'', 20), (''value'', 10)])]\<rparr>"

definition reference_values :: "(string \<times> scorecard) list" where
  "reference_values =
     [(''headphones'',
         [(''battery_life'', 40), (''driver_size'', 50), (''noise_cancellation'', 1),
          (''build_quality'', 5), (''frequency_response'', 40000)]),
      (''trimmer'',
         [(''runtime'', 120), (''blade_material'', 5), (''waterproof'', 1),
          (''attachments'', 10), (''charging_time'', 8)]),
      (''mixer'',
         [(''power_output'', 1000), (''jar_count'', 5), (''speed_settings'', 10),
          (''warranty'', 5), (''safety_features'', 5)]),
      (''smartphone'',
         [(''camera'', 108), (''battery'', 5000), (''processor'', 5), (''ram'', 12),
          (''storage'', 256)])]"

text \<open>\<^verbatim>\<open>self.reference_values.get(category, {})\<close> and \<^verbatim>\<open>reference_vals.get(feature, 1)\<close>.\<close>

definition reference_vals_of :: "string \<Rightarrow> scorecard" where
  "reference_vals_of category =
     (case map_of reference_values category of Some r \<Rightarrow> r | None \<Rightarrow> [])"

definition reference_val_of :: "scorecard \<Rightarrow> string \<Rightarrow> real" where
  "reference_val_of reference_vals feature =
     (case map_of reference_vals feature of Some r \<Rightarrow> r | None \<Rightarrow> 1)"

text \<open>
  One pass of the loop over \<^verbatim>\<open>scorecard.items()\<close>: the points of one feature.  The
  division raises \<open>ZeroDivisionError\<close> on a zero reference value.
\<close>

definition feature_points ::
  "(string \<rightharpoonup> real) \<Rightarrow> scorecard \<Rightarrow> string \<times> real \<Rightarrow> py_error + real" where
  "feature_points normalized_specs reference_vals fw =
     (case normalized_specs (fst fw) of
        Some v \<Rightarrow>
          (let reference_val = reference_val_of reference_vals (fst fw)
           in if reference_val = 0 then Inl ZeroDivisionError
              else if fst fw = ''charging_time''
                   then Inr (snd fw * (1 - min (v / reference_val) 1))
                   else Inr (snd fw * min (v / reference_val) 1))
      | None \<Rightarrow> Inr (snd fw * 0.6))"

fun score_loop ::
  "(string \<rightharpoonup> real) \<Rightarrow> scorecard \<Rightarrow> scorecard \<Rightarrow> real \<Rightarrow> py_error + real" where
  "score_loop normalized_specs reference_vals [] total_points = Inr total_points"
| "score_loop normalized_specs reference_vals (fw # rest) total_points =
     (case feature_points normalized_specs reference_vals fw of
        Inl e \<Rightarrow> Inl e
      | Inr points \<Rightarrow> score_loop normalized_specs reference_vals rest (total_points + points))"

text \<open>The body of the \<open>try\<close> block of \<^verbatim>\<open>calculate_quality_score\<close>.\<close>

definition quality_score_body :: "scorer \<Rightarrow> specs \<Rightarrow> string \<Rightarrow> py_error + real" where
  "quality_score_body s product_specs category0 =
     (let category =
            (if map_of (category_scorecards s) category0 = None then ''general''
             else category0)
      in case map_of (category_scorecards s) category of
           None \<Rightarrow> Inl KeyError
         | Some scorecard \<Rightarrow>
             (let reference_vals = reference_vals_of category;
                  max_possible_points = sum_list (map snd scorecard);
                  normalized_specs = normalize_specs product_specs category
              in case score_loop normalized_specs reference_vals scorecard 0 of
                   Inl e \<Rightarrow> Inl e
                 | Inr total_points \<Rightarrow>
                     if max_possible_points = 0 then Inl ZeroDivisionError
                     else Inr (max 0 (min 100 (total_points / max_possible_points * 100)))))"

text \<open>The \<open>except\<close> clause turns every exception into the default score 60.\<close>

definition calculate_quality_score :: "scorer \<Rightarrow> specs \<Rightarrow> string \<Rightarrow> real" where
  "calculate_quality_score s product_specs category =
     (case quality_score_body s product_specs category of
        Inl e \<Rightarrow> 60
      | Inr score \<Rightarrow> score)"

text \<open>\<^verbatim>\<open>add_custom_scorecard\<close>: \<^verbatim>\<open>self.category_scorecards[category] = scorecard\<close>.\<close>

definition add_custom_scorecard :: "scorer \<Rightarrow> string \<Rightarrow> scorecard \<Rightarrow> scorer" where
  "add_custom_scorecard s category sc =
     s\<lparr>category_scorecards :=
          (if map_of (category_scorecards s) category = None
           then category_scorecards s @ [(category, sc)]
           else map (\<lambda>kv. if fst kv = category then (category, sc) else kv)
                  (category_scorecards s))\<rparr>"

subsection \<open>Final score\<close>

text \<open>
  \<open>round(x, 2)\<close> of Python rounds the exact value of \<open>x\<close> to the nearest multiple of
  \<open>1/100\<close> and resolves a tie to the even multiple.
\<close>

definition round_half_even :: "real \<Rightarrow> int" where
  "round_half_even y =
     (let f = \<lfloor>y\<rfloor>; d = y - of_int f
      in if d < 1 / 2 then f
         else if 1 / 2 < d then f + 1
         else if even f then f else f + 1)"

definition py_round :: "real \<Rightarrow> nat \<Rightarrow> real" where
  "py_round x ndigits = of_int (round_half_even (x * 10 ^ ndigits)) / 10 ^ ndigits"

text \<open>
  \<^verbatim>\<open>calculate_final_score\<close>.  With numeric arguments the \<open>try\<close> block cannot raise, so
  the fallback \<open>quality_score * 0.8\<close> of the \<open>except\<close> clause is not reachable.
\<close>

definition calculate_final_score :: "real \<Rightarrow> real \<Rightarrow> real" where
  "calculate_final_score quality_score rating =
     (let normalized_rating = rating / 5;
          final_score = quality_score * normalized_rating
      in py_round final_score 2)"

subsection \<open>The scoring algorithm in the words of the specification\<close>

definition clamp :: "real \<Rightarrow> real \<Rightarrow> real \<Rightarrow> real" where
  "clamp x lo hi = max lo (min hi x)"

text \<open>
  The points of one scorecard feature: \<open>weight * clamp(value / reference, 0, 1)\<close> when
  the feature is present, inverted for the lower-is-better feature \<open>charging_time\<close>,
  and \<open>0.6 * weight\<close> when the feature is absent.
\<close>

definition spec_points :: "(string \<rightharpoonup> real) \<Rightarrow> scorecard \<Rightarrow> string \<times> real \<Rightarrow> real" where
  "spec_points features refs fw =
     (case features (fst fw) of
        None \<Rightarrow> 0.6 * snd fw
      | Some v \<Rightarrow>
          if fst fw = ''charging_time''
          then snd fw * (1 - clamp (v / reference_val_of refs (fst fw)) 0 1)
          else snd fw * clamp (v / reference_val_of refs (fst fw)) 0 1)"

text \<open>
  Resolve the category (fallback \<open>general\<close>), sum the points, divide by the sum of the
  weights, multiply by 100 and clamp to \<open>[0, 100]\<close>.  The fixed score 60 stands for an
  internal failure: no scorecard can be resolved, or the weights sum to zero.
\<close>

definition spec_score :: "scorer \<Rightarrow> specs \<Rightarrow> string \<Rightarrow> real" where
  "spec_score s sp category0 =
     (let category =
            (if category0 \<in> fst ` set (category_scorecards s) then category0
             else ''general'')
      in case map_of (category_scorecards s) category of
           None \<Rightarrow> 60
         | Some sc \<Rightarrow>
             if sum_list (map snd sc) = 0 then 60
             else clamp
                    (sum_list (map (spec_points (normalize_specs sp category)
                                      (reference_vals_of category)) sc)
                     / sum_list (map snd sc) * 100) 0 100)"

section \<open>Catalog store\<close>

text \<open>
  A row of the SQLite table \<open>products\<close>; a column without \<open>NOT NULL\<close> is optional.
  The table is the list of its rows in row-id order.
\<close>

record product_row =
  row_id :: int
  name :: string
  category :: string
  price :: real
  rating :: "real option"
  platform :: string
  url :: "string option"
  specs :: "string option"
  quality_score :: "real option"
  final_score :: "real option"
  image_url :: "string option"
  description :: "string option"

text \<open>
  The calls the core makes to its collaborators (the SQLite database, the embedding
  model, the Chroma collection).  Any of them can raise; a fault plan says which ones
  do, and with which exception.
\<close>

datatype site =
    FindAlternativesQuery
  | InitVectorDb
  | SelectProducts
  | SelectTarget
  | SelectEmbeddings
  | SelectRow int
  | Encode
  | ChromaGet
  | ChromaDelete
  | ChromaAdd
  | ChromaQuery
  | Connect
  | DeleteEmbeddings
  | InsertEmbedding int
  | Commit

type_synonym faults = "site \<Rightarrow> py_error option"

definition no_faults :: faults where
  "no_faults = (\<lambda>_. None)"

text \<open>An external call at \<open>site\<close> that yields \<open>v\<close> unless the fault plan makes it raise.\<close>

definition call :: "faults \<Rightarrow> site \<Rightarrow> 'a \<Rightarrow> py_error + 'a" where
  "call fl st v = (case fl st of Some e \<Rightarrow> Inl e | None \<Rightarrow> Inr v)"

section \<open>Alternative finder\<close>

text \<open>
  The \<open>WHERE\<close> clause
  \<^verbatim>\<open>category = ? AND price <= ? AND final_score >= ?\<close>;
  a comparison with a \<open>NULL\<close> score is not true.
\<close>

definition alt_where :: "string \<Rightarrow> real \<Rightarrow> real \<Rightarrow> product_row \<Rightarrow> bool" where
  "alt_where cat max_price min_score r =
     (category r = cat \<and> price r \<le> max_price \<and>
      (case final_score r of None \<Rightarrow> False | Some fs \<Rightarrow> min_score \<le> fs))"

text \<open>
  \<^verbatim>\<open>ORDER BY final_score DESC, price ASC\<close>: \<open>alt_before a b\<close> says that \<open>a\<close> may stand
  before \<open>b\<close>.  \<open>NULL\<close> is the smallest value of a column, so it comes last in a
  descending order.
\<close>

definition score_desc_lt :: "real option \<Rightarrow> real option \<Rightarrow> bool" where
  "score_desc_lt x y =
     (case x of None \<Rightarrow> False
      | Some a \<Rightarrow> (case y of None \<Rightarrow> True | Some b \<Rightarrow> b < a))"

definition alt_before :: "product_row \<Rightarrow> product_row \<Rightarrow> bool" where
  "alt_before a b =
     (score_desc_lt (final_score a) (final_score b) \<or>
      (final_score a = final_score b \<and> price a \<le> price b))"

text \<open>
  The sorter inserts the rows one by one.  SQL does not fix the order of rows that tie
  in both columns; the model keeps their table order.
\<close>

fun insert_row :: "product_row \<Rightarrow> product_row list \<Rightarrow> product_row list" where
  "insert_row r [] = [r]"
| "insert_row r (x # xs) = (if alt_before r x then r # x # xs else x # insert_row r xs)"

definition order_by_score_price :: "product_row list \<Rightarrow> product_row list" where
  "order_by_score_price rows = foldr insert_row rows []"

text \<open>\<^verbatim>\<open>LIMIT ?\<close>: SQLite reads a negative limit as no limit.\<close>

definition sql_limit :: "int \<Rightarrow> 'a list \<Rightarrow> 'a list" where
  "sql_limit n rows = (if n < 0 then rows else take (nat n) rows)"

definition alternatives_query ::
  "product_row list \<Rightarrow> string \<Rightarrow> real \<Rightarrow> real \<Rightarrow> int \<Rightarrow> product_row list" where
  "alternatives_query tbl cat max_price min_score limit =
     sql_limit limit (order_by_score_price (filter (alt_where cat max_price min_score) tbl))"

text \<open>
  The loop over the result rows replaces a non-empty \<open>specs\<close> text by its parsed JSON
  value.  \<open>json.loads\<close> is a parameter: it returns the parsed value or raises.  The
  loop handles \<open>JSONDecodeError\<close> only, by the empty dictionary; any other exception
  of \<open>json.loads\<close> (a \<open>RecursionError\<close> on deeply nested text, for one) leaves the
  loop.
\<close>

datatype 'j specs_value = SpecsNull | SpecsText string | SpecsJson 'j | SpecsEmptyDict

record 'j alternative =
  alt_row :: product_row
  alt_specs :: "'j specs_value"

definition parse_specs ::
  "(string \<Rightarrow> py_error + 'j) \<Rightarrow> string option \<Rightarrow> py_error + 'j specs_value" where
  "parse_specs json_loads sp =
     (case sp of
        None \<Rightarrow> Inr SpecsNull
      | Some t \<Rightarrow>
          if t = [] then Inr (SpecsText t)
          else (case json_loads t of
                  Inr j \<Rightarrow> Inr (SpecsJson j)
                | Inl e \<Rightarrow> if e = JSONDecodeError then Inr SpecsEmptyDict else Inl e))"

fun process_rows ::
  "(string \<Rightarrow> py_error + 'j) \<Rightarrow> product_row list \<Rightarrow> py_error + 'j alternative list" where
  "process_rows json_loads [] = Inr []"
| "process_rows json_loads (r # rows) =
     (case parse_specs json_loads (specs r) of
        Inl e \<Rightarrow> Inl e
      | Inr sv \<Rightarrow>
          (case process_rows json_loads rows of
             Inl e \<Rightarrow> Inl e
           | Inr alternatives \<Rightarrow> Inr (\<lparr>alt_row = r, alt_specs = sv\<rparr> # alternatives)))"

text \<open>
  \<^verbatim>\<open>find_alternatives\<close>.  The outer \<open>except\<close> clause logs every exception, of the query
  or of the loop over its rows, and returns the empty list, so the function has no
  error result.
\<close>

definition find_alternatives ::
  "(string \<Rightarrow> py_error + 'j) \<Rightarrow> faults \<Rightarrow> product_row list \<Rightarrow>
     string \<Rightarrow> real \<Rightarrow> real \<Rightarrow> int \<Rightarrow> 'j alternative list" where
  "find_alternatives json_loads fl tbl cat target_score max_price limit =
     (let min_score = target_score * 0.9
      in case call fl FindAlternativesQuery
                (alternatives_query tbl cat max_price min_score limit) of
           Inl e \<Rightarrow> []
         | Inr results \<Rightarrow>
             (case process_rows json_loads results of
                Inl e \<Rightarrow> []
              | Inr alternatives \<Rightarrow> alternatives))"

section \<open>Embedding index and recommendation engine\<close>

subsection \<open>State\<close>

record metadata =
  md_name :: string
  md_category :: string
  md_price :: real
  md_rating :: "real option"
  md_platform :: string

text \<open>
  An entry of the Chroma collection.  The code writes the id as \<open>str(product_id)\<close> and
  reads it back with \<open>int\<close>; the model keeps the integer.
\<close>

record chroma_entry =
  entry_id :: int
  entry_embedding :: "real list"
  entry_metadata :: metadata
  entry_document :: string

text \<open>
  Everything the engine reads and writes: the table \<open>products\<close>, the table
  \<open>product_embeddings\<close> (primary key \<open>product_id\<close>) of the exact backend, and the
  Chroma collection of the approximate backend.
\<close>

record world =
  products :: "product_row list"
  product_embeddings :: "(int \<times> real list) list"
  collection :: "chroma_entry list"

text \<open>
  The engine: the backend switch \<open>USE_CHROMA\<close>, the embedding model as a function from
  text to vector, and the nearest-neighbour search of the Chroma collection, which
  answers a query vector and a number of results with entries and their distances.
  The model is loaded; the collection handle \<open>self.collection\<close> exists exactly when
  \<open>use_chroma\<close> holds, since \<open>initialize_vector_db\<close> leaves it \<open>None\<close> on the SQLite
  backend (and therefore runs again at the start of every call there).
\<close>

record engine =
  use_chroma :: bool
  encode :: "string \<Rightarrow> real list"
  chroma_nearest :: "chroma_entry list \<Rightarrow> real list \<Rightarrow> int \<Rightarrow> (chroma_entry \<times> real) list"

record recommendation =
  rec_id :: int
  rec_name :: string
  rec_category :: string
  rec_price :: real
  rec_rating :: "real option"
  rec_platform :: string
  similarity_score :: real
  description_preview :: string

subsection \<open>Catalog queries of the engine\<close>

text \<open>\<^verbatim>\<open>description IS NOT NULL AND description != ''\<close>.\<close>

definition described :: "product_row \<Rightarrow> bool" where
  "described r = (case description r of None \<Rightarrow> False | Some d \<Rightarrow> d \<noteq> [])"

definition select_described :: "product_row list \<Rightarrow> int \<Rightarrow> product_row option" where
  "select_described tbl pid = find (\<lambda>r. row_id r = pid \<and> described r) tbl"

definition select_by_id :: "product_row list \<Rightarrow> int \<Rightarrow> product_row option" where
  "select_by_id tbl pid = find (\<lambda>r. row_id r = pid) tbl"

definition document_of :: "product_row \<Rightarrow> string" where
  "document_of r = (case description r of None \<Rightarrow> [] | Some d \<Rightarrow> d)"

text \<open>\<^verbatim>\<open>f"{product['name']} - {product['description']}"\<close>.\<close>

definition text_to_embed :: "product_row \<Rightarrow> string" where
  "text_to_embed r = name r @ '' - '' @ document_of r"

definition metadata_of :: "product_row \<Rightarrow> metadata" where
  "metadata_of r =
     \<lparr>md_name = name r, md_category = category r, md_price = price r,
      md_rating = rating r, md_platform = platform r\<rparr>"

text \<open>\<^verbatim>\<open>document[:100] + "..." if len(document) > 100 else document\<close>.\<close>

definition preview :: "string \<Rightarrow> string" where
  "preview document = (if 100 < length document then take 100 document @ ''...'' else document)"

subsection \<open>Exact backend: cosine similarity\<close>

definition dot :: "real list \<Rightarrow> real list \<Rightarrow> real" where
  "dot a b = sum_list (map2 (*) a b)"

definition norm2 :: "real list \<Rightarrow> real" where
  "norm2 a = sqrt (dot a a)"

text \<open>
  \<^verbatim>\<open>np.dot(db, t) / (np.linalg.norm(db, axis=1) * (np.linalg.norm(t) + 1e-10))\<close> for one
  stored vector.  A zero denominator makes numpy produce \<open>nan\<close>, here \<open>None\<close>.
\<close>

definition cosine_sim :: "real list \<Rightarrow> real list \<Rightarrow> real option" where
  "cosine_sim e t =
     (let denominator = norm2 e * (norm2 t + 1 / 10 ^ 10)
      in if denominator = 0 then None else Some (dot e t / denominator))"

text \<open>
  \<^verbatim>\<open>pairs.sort(key=lambda x: x[1], reverse=True)\<close>: descending similarity, and pairs
  of equal similarity keep their order.
\<close>

fun insert_pair :: "int \<times> real \<Rightarrow> (int \<times> real) list \<Rightarrow> (int \<times> real) list" where
  "insert_pair p [] = [p]"
| "insert_pair p (x # xs) = (if snd x \<le> snd p then p # x # xs else x # insert_pair p xs)"

definition sort_pairs_desc :: "(int \<times> real) list \<Rightarrow> (int \<times> real) list" where
  "sort_pairs_desc pairs = foldr insert_pair pairs []"

text \<open>The slice \<^verbatim>\<open>xs[:k]\<close>; a negative \<open>k\<close> counts from the end.\<close>

definition py_take :: "int \<Rightarrow> 'a list \<Rightarrow> 'a list" where
  "py_take k xs = (if 0 \<le> k then take (nat k) xs else take (length xs - nat (- k)) xs)"

text \<open>
  The pairs \<open>(id, similarity)\<close> of all stored vectors but the target's own; \<open>None\<close>
  when one of these similarities is \<open>nan\<close>.
\<close>

fun similarity_pairs ::
  "int \<Rightarrow> real list \<Rightarrow> (int \<times> real list) list \<Rightarrow> (int \<times> real) list option" where
  "similarity_pairs pid t [] = Some []"
| "similarity_pairs pid t ((rid, e) # rows) =
     (if rid = pid then similarity_pairs pid t rows
      else case cosine_sim e t of
             None \<Rightarrow> None
           | Some sim \<Rightarrow>
               (case similarity_pairs pid t rows of
                  None \<Rightarrow> None
                | Some ps \<Rightarrow> Some ((rid, sim) # ps)))"

text \<open>
  The loop over the top pairs: the row of each id is fetched from \<open>products\<close>; an id
  without a row is skipped.
\<close>

fun enrich_loop ::
  "faults \<Rightarrow> product_row list \<Rightarrow> (int \<times> real) list \<Rightarrow> py_error + recommendation list" where
  "enrich_loop fl tbl [] = Inr []"
| "enrich_loop fl tbl ((rid, sim) # tops) =
     (case call fl (SelectRow rid) (select_by_id tbl rid) of
        Inl e \<Rightarrow> Inl e
      | Inr None \<Rightarrow> enrich_loop fl tbl tops
      | Inr (Some r) \<Rightarrow>
          (case enrich_loop fl tbl tops of
             Inl e \<Rightarrow> Inl e
           | Inr recs \<Rightarrow>
               Inr (\<lparr>rec_id = row_id r, rec_name = name r, rec_category = category r,
                     rec_price = price r, rec_rating = rating r, rec_platform = platform r,
                     similarity_score = py_round sim 4,
                     description_preview = preview (document_of r)\<rparr> # recs)))"

subsection \<open>Approximate backend: the loop over the query results\<close>

text \<open>
  \<open>acc\<close> holds the recommendations appended so far, in reverse.  The division
  \<^verbatim>\<open>1 / (1 + distance)\<close> raises on the distance \<open>-1\<close>.
\<close>

fun chroma_loop ::
  "int \<Rightarrow> int \<Rightarrow> (chroma_entry \<times> real) list \<Rightarrow> recommendation list \<Rightarrow>
     py_error + recommendation list" where
  "chroma_loop pid k [] acc = Inr (rev acc)"
| "chroma_loop pid k ((e, distance) # hits) acc =
     (if entry_id e = pid then chroma_loop pid k hits acc
      else if 1 + distance = 0 then Inl ZeroDivisionError
      else
        (let similarity = 1 / (1 + distance);
             recommendation =
               \<lparr>rec_id = entry_id e, rec_name = md_name (entry_metadata e),
                rec_category = md_category (entry_metadata e),
                rec_price = md_price (entry_metadata e),
                rec_rating = md_rating (entry_metadata e),
                rec_platform = md_platform (entry_metadata e),
                similarity_score = py_round similarity 4,
                description_preview = preview (entry_document e)\<rparr>;
             acc' = recommendation # acc
         in if k \<le> int (length acc') then Inr (rev acc') else chroma_loop pid k hits acc'))"

subsection \<open>Recommendations\<close>

text \<open>
  The exact branch of \<^verbatim>\<open>get_recommendations\<close>.  \<open>np.vstack\<close> and \<open>np.dot\<close> raise
  \<open>ValueError\<close> unless every stored vector has the dimension of the target vector.
  The result is \<open>None\<close> when a similarity that takes part in the sort is \<open>nan\<close>: the
  order \<open>list.sort\<close> produces then is outside the model.
\<close>

definition exact_recommendations ::
  "faults \<Rightarrow> world \<Rightarrow> int \<Rightarrow> int \<Rightarrow> real list \<Rightarrow> (py_error + recommendation list) option" where
  "exact_recommendations fl w product_id num_recommendations target_vec =
     (case call fl SelectEmbeddings (product_embeddings w) of
        Inl e \<Rightarrow> Some (Inl e)
      | Inr rows \<Rightarrow>
          if rows = [] then Some (Inr [])
          else if \<not> list_all (\<lambda>r. length (snd r) = length target_vec) rows
          then Some (Inl ValueError)
          else
            (case similarity_pairs product_id target_vec rows of
               None \<Rightarrow> None
             | Some pairs \<Rightarrow>
                 (case call fl Connect () of
                    Inl e \<Rightarrow> Some (Inl e)
                  | Inr _ \<Rightarrow>
                      Some (enrich_loop fl (products w)
                              (py_take num_recommendations (sort_pairs_desc pairs))))))"

text \<open>
  \<^verbatim>\<open>get_recommendations\<close>.  The \<open>except\<close> clause re-raises; the early \<open>return []\<close> for a
  product that is missing or has no description is a normal return.
\<close>

definition get_recommendations ::
  "engine \<Rightarrow> faults \<Rightarrow> world \<Rightarrow> int \<Rightarrow> int \<Rightarrow> (py_error + recommendation list) option" where
  "get_recommendations eng fl w product_id num_recommendations =
     (case (if use_chroma eng then Inr () else call fl InitVectorDb ()) of
        Inl e \<Rightarrow> Some (Inl e)
      | Inr _ \<Rightarrow>
          (case call fl SelectTarget (select_described (products w) product_id) of
             Inl e \<Rightarrow> Some (Inl e)
           | Inr None \<Rightarrow> Some (Inr [])
           | Inr (Some target_product) \<Rightarrow>
               (case call fl Encode (encode eng (text_to_embed target_product)) of
                  Inl e \<Rightarrow> Some (Inl e)
                | Inr target_embedding \<Rightarrow>
                    if use_chroma eng
                    then (case call fl ChromaQuery
                                 (chroma_nearest eng (collection w) target_embedding
                                    (num_recommendations + 1)) of
                            Inl e \<Rightarrow> Some (Inl e)
                          | Inr hits \<Rightarrow> Some (chroma_loop product_id num_recommendations hits []))
                    else exact_recommendations fl w product_id num_recommendations
                           target_embedding)))"

subsection \<open>Index writes\<close>

text \<open>\<^verbatim>\<open>INSERT OR REPLACE INTO product_embeddings(product_id, embedding)\<close>.\<close>

definition insert_or_replace ::
  "int \<Rightarrow> real list \<Rightarrow> (int \<times> real list) list \<Rightarrow> (int \<times> real list) list" where
  "insert_or_replace pid emb tbl = filter (\<lambda>r. fst r \<noteq> pid) tbl @ [(pid, emb)]"

fun insert_loop ::
  "faults \<Rightarrow> (int \<times> real list) list \<Rightarrow> (int \<times> real list) list \<Rightarrow>
     py_error + (int \<times> real list) list" where
  "insert_loop fl [] tbl = Inr tbl"
| "insert_loop fl ((pid, emb) # rest) tbl =
     (case call fl (InsertEmbedding pid) (insert_or_replace pid emb tbl) of
        Inl e \<Rightarrow> Inl e
      | Inr tbl' \<Rightarrow> insert_loop fl rest tbl')"

text \<open>
  The SQLite branch of the rebuild: connect, \<open>DELETE\<close>, one \<open>INSERT OR REPLACE\<close> per
  product, \<open>commit\<close>.  The statements run in the transaction that \<open>sqlite3\<close> opens
  before the first of them; an exception leaves the function before \<open>commit\<close>, and
  the transaction is rolled back when the connection is dropped.
\<close>

definition sqlite_store ::
  "faults \<Rightarrow> (int \<times> real list) list \<Rightarrow> world \<Rightarrow> (py_error + unit) \<times> world" where
  "sqlite_store fl new_rows w =
     (case call fl Connect () of
        Inl e \<Rightarrow> (Inl e, w)
      | Inr _ \<Rightarrow>
          (case call fl DeleteEmbeddings [] of
             Inl e \<Rightarrow> (Inl e, w)
           | Inr emptied \<Rightarrow>
               (case insert_loop fl new_rows emptied of
                  Inl e \<Rightarrow> (Inl e, w)
                | Inr tbl \<Rightarrow>
                    (case call fl Commit () of
                       Inl e \<Rightarrow> (Inl e, w)
                     | Inr _ \<Rightarrow> (Inr (), w\<lparr>product_embeddings := tbl\<rparr>)))))"

text \<open>
  The Chroma branch first clears the collection inside its own \<open>try\<close>: an exception of
  \<open>get\<close> or \<open>delete\<close> is logged as a warning and the rebuild goes on.
\<close>

definition chroma_clear :: "faults \<Rightarrow> chroma_entry list \<Rightarrow> chroma_entry list" where
  "chroma_clear fl coll =
     (case call fl ChromaGet (map entry_id coll) of
        Inl e \<Rightarrow> coll
      | Inr ids \<Rightarrow>
          if ids = [] then coll
          else (case call fl ChromaDelete (filter (\<lambda>e. entry_id e \<notin> set ids) coll) of
                  Inl e \<Rightarrow> coll
                | Inr coll' \<Rightarrow> coll'))"

text \<open>
  \<open>collection.add\<close>, after the documentation of Chroma.  The batch is validated first:
  a metadata value of \<open>None\<close> (only the rating can be \<open>NULL\<close> in the catalog) is refused
  with \<open>ValueError\<close>, and a batch with a repeated id is refused.  A record whose id is
  already in the collection is ignored.
\<close>

definition chroma_add ::
  "faults \<Rightarrow> chroma_entry list \<Rightarrow> chroma_entry list \<Rightarrow> py_error + chroma_entry list" where
  "chroma_add fl coll batch =
     (if list_ex (\<lambda>e. md_rating (entry_metadata e) = None) batch then Inl ValueError
      else if \<not> distinct (map entry_id batch) then Inl ChromaError
      else case call fl ChromaAdd () of
             Inl e \<Rightarrow> Inl e
           | Inr _ \<Rightarrow> Inr (coll @ filter (\<lambda>e. entry_id e \<notin> entry_id ` set coll) batch))"

definition entry_of :: "engine \<Rightarrow> product_row \<Rightarrow> chroma_entry" where
  "entry_of eng r =
     \<lparr>entry_id = row_id r, entry_embedding = encode eng (text_to_embed r),
      entry_metadata = metadata_of r, entry_document = text_to_embed r\<rparr>"

text \<open>\<^verbatim>\<open>generate_embeddings_for_all_products\<close>, the batch rebuild of the index.\<close>

definition generate_embeddings_for_all_products ::
  "engine \<Rightarrow> faults \<Rightarrow> world \<Rightarrow> (py_error + unit) \<times> world" where
  "generate_embeddings_for_all_products eng fl w =
     (case (if use_chroma eng then Inr () else call fl InitVectorDb ()) of
        Inl e \<Rightarrow> (Inl e, w)
      | Inr _ \<Rightarrow>
          (case call fl SelectProducts (filter described (products w)) of
             Inl e \<Rightarrow> (Inl e, w)
           | Inr prods \<Rightarrow>
               if prods = [] then (Inr (), w)
               else
                 (case call fl Encode (map (entry_of eng) prods) of
                    Inl e \<Rightarrow> (Inl e, w)
                  | Inr entries \<Rightarrow>
                      if use_chroma eng
                      then
                        (let cleared = w\<lparr>collection := chroma_clear fl (collection w)\<rparr>
                         in case chroma_add fl (collection cleared) entries of
                              Inl e \<Rightarrow> (Inl e, cleared)
                            | Inr coll \<Rightarrow> (Inr (), cleared\<lparr>collection := coll\<rparr>))
                      else
                        sqlite_store fl
                          (map (\<lambda>e. (entry_id e, entry_embedding e)) entries) w)))"

text \<open>
  \<^verbatim>\<open>add_product_embedding\<close>, the incremental write.  It calls \<open>self.collection.add\<close>
  on either backend; on the SQLite backend the handle is \<open>None\<close> and the call raises
  \<open>AttributeError\<close>.
\<close>

definition add_product_embedding ::
  "engine \<Rightarrow> faults \<Rightarrow> world \<Rightarrow> int \<Rightarrow> (py_error + unit) \<times> world" where
  "add_product_embedding eng fl w product_id =
     (case (if use_chroma eng then Inr () else call fl InitVectorDb ()) of
        Inl e \<Rightarrow> (Inl e, w)
      | Inr _ \<Rightarrow>
          (case call fl SelectTarget (select_described (products w) product_id) of
             Inl e \<Rightarrow> (Inl e, w)
           | Inr None \<Rightarrow> (Inr (), w)
           | Inr (Some r) \<Rightarrow>
               (case call fl Encode (entry_of eng r) of
                  Inl e \<Rightarrow> (Inl e, w)
                | Inr entry \<Rightarrow>
                    if \<not> use_chroma eng then (Inl AttributeError, w)
                    else
                      (case chroma_add fl (collection w)
                              [entry\<lparr>entry_id := product_id\<rparr>] of
                         Inl e \<Rightarrow> (Inl e, w)
                       | Inr coll \<Rightarrow> (Inr (), w\<lparr>collection := coll\<rparr>)))))"

text \<open>The vectors the index of the configured backend holds for one product id.\<close>

definition vectors_for :: "engine \<Rightarrow> world \<Rightarrow> int \<Rightarrow> real list list" where
  "vectors_for eng w pid =
     (if use_chroma eng
      then map entry_embedding (filter (\<lambda>e. entry_id e = pid) (collection w))
      else map snd (filter (\<lambda>r. fst r = pid) (product_embeddings w)))"

section \<open>Auxiliary notions and sample data\<close>

text \<open>A feature set without negative values.\<close>

definition nonneg_map :: "(string \<rightharpoonup> real) \<Rightarrow> bool" where
  "nonneg_map m = (\<forall>f v. m f = Some v \<longrightarrow> 0 \<le> v)"

text \<open>
  A catalog of five headphones, as in the fixture of the specification's testable
  properties: the query for target score 80 and price ceiling 1000 matches the rows
  1, 3 and 5.
\<close>

definition mk_row :: "int \<Rightarrow> string \<Rightarrow> real \<Rightarrow> real option \<Rightarrow> string option \<Rightarrow> product_row" where
  "mk_row i cat p fs d =
     \<lparr>row_id = i, name = ''item'', category = cat, price = p, rating = Some 4,
      platform = ''shop'', url = None, specs = None, quality_score = fs, final_score = fs,
      image_url = None, description = d\<rparr>"

definition fixture_rows :: "product_row list" where
  "fixture_rows =
     [mk_row 1 ''headphones'' 900 (Some 75) (Some ''a''),
      mk_row 2 ''headphones'' 1200 (Some 90) (Some ''b''),
      mk_row 3 ''headphones'' 800 (Some 85) (Some ''c''),
      mk_row 4 ''headphones'' 700 (Some 60) (Some ''''),
      mk_row 5 ''headphones'' 600 (Some 85) None]"

text \<open>
  Stand-ins for \<open>json.loads\<close>: one that finds no text to be JSON, and one that
  moreover exceeds the recursion limit on the text of a thousand opening brackets.
\<close>

definition no_json :: "string \<Rightarrow> py_error + unit" where
  "no_json t = Inl JSONDecodeError"

definition deep_text :: string where
  "deep_text = replicate 1000 (CHR ''['')"

definition deep_loads :: "string \<Rightarrow> py_error + unit" where
  "deep_loads t = (if t = deep_text then Inl RecursionError else Inl JSONDecodeError)"

text \<open>The fixture with the deeply nested text in the \<open>specs\<close> column of product 3.\<close>

definition deep_rows :: "product_row list" where
  "deep_rows = map (\<lambda>r. if row_id r = 3 then r\<lparr>specs := Some deep_text\<rparr> else r) fixture_rows"

text \<open>
  A stand-in embedding model: the rows 1, 2 and 3 of the fixture get the vectors
  \<open>(1, 0)\<close>, \<open>(-1, 0)\<close> and \<open>(0, 1)\<close>.
\<close>

definition sample_encode :: "string \<Rightarrow> real list" where
  "sample_encode t =
     (if t = ''item - a'' then [1, 0]
      else if t = ''item - b'' then [-1, 0]
      else if t = ''item - c'' then [0, 1]
      else [1, 1])"

text \<open>
  A stand-in index service: it computes the squared Euclidean distance of every entry
  and reports the nearest entries first.
\<close>

definition sq_dist :: "real list \<Rightarrow> real list \<Rightarrow> real" where
  "sq_dist a b = sum_list (map2 (\<lambda>x y. (x - y) * (x - y)) a b)"

fun insert_hit ::
  "chroma_entry \<times> real \<Rightarrow> (chroma_entry \<times> real) list \<Rightarrow> (chroma_entry \<times> real) list" where
  "insert_hit h [] = [h]"
| "insert_hit h (x # xs) = (if snd h \<le> snd x then h # x # xs else x # insert_hit h xs)"

definition scan_nearest ::
  "chroma_entry list \<Rightarrow> real list \<Rightarrow> int \<Rightarrow> (chroma_entry \<times> real) list" where
  "scan_nearest coll q n =
     take (nat n) (foldr insert_hit (map (\<lambda>e. (e, sq_dist (entry_embedding e) q)) coll) [])"

definition exact_engine :: engine where
  "exact_engine = \<lparr>use_chroma = False, encode = sample_encode, chroma_nearest = scan_nearest\<rparr>"

definition approx_engine :: engine where
  "approx_engine = \<lparr>use_chroma = True, encode = sample_encode, chroma_nearest = scan_nearest\<rparr>"

text \<open>The fixture catalog with an empty index, and with the index the batch job builds.\<close>

definition fresh_world :: world where
  "fresh_world = \<lparr>products = fixture_rows, product_embeddings = [], collection = []\<rparr>"

definition indexed_world :: world where
  "indexed_world =
     \<lparr>products = fixture_rows,
      product_embeddings = [(1, [1, 0]), (2, [-1, 0]), (3, [0, 1])],
      collection = map (entry_of approx_engine) (filter described fixture_rows)\<rparr>"

text \<open>
  The indexed catalog after product 2 has been deleted from the table \<open>products\<close>:
  its vector is still in the index.
\<close>

definition orphan_world :: world where
  "orphan_world =
     \<lparr>products = filter (\<lambda>r. row_id r \<noteq> 2) fixture_rows,
      product_embeddings = [(1, [1, 0]), (2, [1, 0]), (3, [0, 1])],
      collection = []\<rparr>"

text \<open>A fault plan with a single failing call.\<close>

definition fail_at :: "site \<Rightarrow> py_error \<Rightarrow> faults" where
  "fail_at st e = (\<lambda>x. if x = st then Some e else None)"

text \<open>The recommendation built from a catalog row, a score and a preview text.\<close>

definition rec_of :: "product_row \<Rightarrow> real \<Rightarrow> string \<Rightarrow> recommendation" where
  "rec_of r sim doc =
     \<lparr>rec_id = row_id r, rec_name = name r, rec_category = category r, rec_price = price r,
      rec_rating = rating r, rec_platform = platform r, similarity_score = sim,
      description_preview = doc\<rparr>"

text \<open>
  A catalog whose only product has an empty description, with a vector left in the
  index from an earlier state of the catalog.
\<close>

definition stale_world :: world where
  "stale_world =
     \<lparr>products = [mk_row 4 ''headphones'' 700 (Some 60) (Some '''')],
      product_embeddings = [(1, [1, 0])],
      collection = []\<rparr>"

section \<open>Properties of the quality scorer\<close>

subsection \<open>Normalized features are never negative\<close>

lemma nonneg_map_empty: "nonneg_map Map.empty"
  by (simp add: nonneg_map_def)

lemma nonneg_map_upd: "0 \<le> v \<Longrightarrow> nonneg_map m \<Longrightarrow> nonneg_map (m(k \<mapsto> v))"
  by (simp add: nonneg_map_def)

lemma try_patterns_nonneg: "try_patterns ps t = Some v \<Longrightarrow> 0 \<le> v"
  by (induction ps) (auto simp: Let_def split: option.splits if_splits)

lemma extract_nonneg: "extract_numeric_value t ps = Some v \<Longrightarrow> 0 \<le> v"
  by (auto simp: extract_numeric_value_def split: if_splits dest: try_patterns_nonneg)

lemma nonneg_map_set_if_truthy:
  "nonneg_map m \<Longrightarrow> nonneg_map (set_if_truthy k (extract_numeric_value t ps) m)"
  by (auto simp: set_if_truthy_def nonneg_map_upd split: option.splits dest: extract_nonneg)

lemmas nonneg_intros = nonneg_map_empty nonneg_map_upd nonneg_map_set_if_truthy

lemma nonneg_headphones: "nonneg_map (normalize_headphones_specs sp)"
  by (simp add: normalize_headphones_specs_def Let_def nonneg_intros)

lemma nonneg_trimmer: "nonneg_map (normalize_trimmer_specs sp)"
  by (simp add: normalize_trimmer_specs_def Let_def nonneg_intros)

lemma nonneg_mixer: "nonneg_map (normalize_mixer_specs sp)"
  by (simp add: normalize_mixer_specs_def Let_def nonneg_intros)

lemma nonneg_smartphone: "nonneg_map (normalize_smartphone_specs sp)"
  by (simp add: normalize_smartphone_specs_def Let_def nonneg_intros)

lemma nonneg_laptop: "nonneg_map (normalize_laptop_specs sp)"
  by (simp add: normalize_laptop_specs_def nonneg_intros)

lemma nonneg_clothing: "nonneg_map (normalize_clothing_specs sp)"
  by (simp add: normalize_clothing_specs_def Let_def nonneg_intros)

lemma nonneg_general: "nonneg_map (normalize_general_specs sp)"
  by (simp add: normalize_general_specs_def nonneg_intros)

lemma nonneg_normalize_specs: "nonneg_map (normalize_specs sp c)"
  by (simp add: normalize_specs_def nonneg_headphones nonneg_trimmer nonneg_mixer
      nonneg_smartphone nonneg_laptop nonneg_clothing nonneg_general)

subsection \<open>The loop computes the points of the specification\<close>

lemma reference_val_pos: "0 < reference_val_of (reference_vals_of c) f"
  by (simp add: reference_val_of_def reference_vals_of_def reference_values_def)

lemma clamp_unit_nonneg: "0 \<le> x \<Longrightarrow> clamp x 0 1 = min x 1"
  by (simp add: clamp_def min_def max_def)

lemma feature_points_spec:
  assumes "nonneg_map n" "0 < reference_val_of r (fst fw)"
  shows "feature_points n r fw = Inr (spec_points n r fw)"
proof (cases "n (fst fw)")
  case None
  then show ?thesis by (simp add: feature_points_def spec_points_def)
next
  case (Some v)
  with assms(1) have "0 \<le> v" by (auto simp: nonneg_map_def)
  with assms(2) have "0 \<le> v / reference_val_of r (fst fw)" by simp
  then have c: "clamp (v / reference_val_of r (fst fw)) 0 1 = min (v / reference_val_of r (fst fw)) 1"
    by (rule clamp_unit_nonneg)
  have nz: "reference_val_of r (fst fw) \<noteq> 0" using assms(2) by simp
  show ?thesis
    unfolding feature_points_def spec_points_def Let_def Some option.case c
    using nz by simp
qed

lemma score_loop_spec:
  assumes "nonneg_map n" "\<And>f. 0 < reference_val_of r f"
  shows "score_loop n r sc t = Inr (t + sum_list (map (spec_points n r) sc))"
  using assms
  by (induction sc arbitrary: t) (simp_all add: feature_points_spec add.assoc)

text \<open>
  Claim C2.  For every scorer state, every specs mapping and every category tag the
  quality score the code returns is the score of the algorithm of the specification:
  per scorecard feature \<open>weight * clamp(value / reference, 0, 1)\<close> (inverted for
  \<open>charging_time\<close>), \<open>0.6 * weight\<close> for an absent feature, the sum divided by the sum
  of the weights, times 100, clamped to \<open>[0, 100]\<close>.  The code clamps the ratio from
  above only; the two agree because no normalizer produces a negative value and every
  reference value is positive.
\<close>

theorem quality_score_refines_spec:
  "calculate_quality_score s sp cat = spec_score s sp cat"
proof -
  have res: "(cat \<in> fst ` set (category_scorecards s))
      = (map_of (category_scorecards s) cat \<noteq> None)"
    by (simp add: map_of_eq_None_iff)
  show ?thesis
    unfolding calculate_quality_score_def quality_score_body_def spec_score_def res Let_def
    by (simp add: score_loop_spec nonneg_normalize_specs reference_val_pos clamp_def
        split: option.splits)
qed

text \<open>
  Claim C1, as the code has it.  With the scorecards of the constructor, an empty specs
  mapping scores exactly 60 for the categories \<open>mixer\<close>, \<open>smartphone\<close> and \<open>laptop\<close>,
  whose normalizers produce no feature from it.  The other normalizers produce features
  from an empty mapping as well (keyword flags 0, ordinal defaults 3, the count of
  entries 0), and those features are scored instead of the 0.6 default: the score is
  48 for \<open>headphones\<close> and \<open>trimmer\<close>, 72 for \<open>clothing\<close>, and 70 for \<open>general\<close> and
  for every category without a scorecard.
\<close>

theorem empty_specs_score_by_category:
  "calculate_quality_score QualityScorer_init [] cat =
     (if cat \<in> {''mixer'', ''smartphone'', ''laptop''} then 60
      else if cat \<in> {''headphones'', ''trimmer''} then 48
      else if cat = ''clothing'' then 72
      else 70)"
  by (simp add: calculate_quality_score_def quality_score_body_def QualityScorer_init_def
      reference_vals_of_def reference_values_def normalize_specs_def normalize_general_specs_def
      normalize_headphones_specs_def normalize_trimmer_specs_def normalize_mixer_specs_def
      normalize_smartphone_specs_def normalize_laptop_specs_def normalize_clothing_specs_def
      feature_points_def reference_val_of_def extract_numeric_value_def set_if_truthy_def
      get_or_def has_key_def specs_text_of_def any_in_def Let_def)

text \<open>
  Claim C1 as stated fails: for the category \<open>general\<close> the empty specs mapping does
  not score 60.
\<close>

theorem empty_specs_general_not_60:
  "calculate_quality_score QualityScorer_init [] ''general'' \<noteq> 60"
  by (simp add: calculate_quality_score_def quality_score_body_def QualityScorer_init_def
      reference_vals_of_def reference_values_def normalize_specs_def normalize_general_specs_def
      feature_points_def reference_val_of_def)

text \<open>A registered scorecard is the one the scorer resolves for its category.\<close>

lemma add_custom_scorecard_lookup:
  "map_of (category_scorecards (add_custom_scorecard s c sc)) c = Some sc"
proof -
  have "map_of xs c \<noteq> None \<Longrightarrow>
      map_of (map (\<lambda>kv. if fst kv = c then (c, sc) else kv) xs) c = Some sc" for xs
    by (induction xs) auto
  then show ?thesis by (auto simp: add_custom_scorecard_def map_add_def)
qed

subsection \<open>Final score\<close>

lemma round_half_even_of_int: "round_half_even (of_int n) = n"
  by (simp add: round_half_even_def)

lemma round_half_even_bounds: "\<bar>of_int (round_half_even y) - y\<bar> \<le> 1 / 2"
  unfolding round_half_even_def Let_def by (auto simp: abs_if split: if_splits) linarith+

lemma py_round2_multiple: "\<exists>n::int. py_round x 2 = of_int n / 100"
  by (auto simp: py_round_def)

lemma py_round2_near: "\<bar>py_round x 2 - x\<bar> \<le> 1 / 200"
proof -
  have "\<bar>of_int (round_half_even (x * 100)) - x * 100\<bar> \<le> 1 / 2"
    by (rule round_half_even_bounds)
  then show ?thesis by (simp add: py_round_def abs_if field_simps split: if_splits)
qed

lemma py_round2_fixed: "(py_round x 2 = x) = (\<exists>n::int. x = of_int n / 100)"
proof
  assume "py_round x 2 = x"
  then show "\<exists>n::int. x = of_int n / 100" using py_round2_multiple[of x] by auto
next
  assume "\<exists>n::int. x = of_int n / 100"
  then obtain n :: int where "x = of_int n / 100" by blast
  then show "py_round x 2 = x" by (simp add: py_round_def round_half_even_of_int)
qed

lemma camera_score:
  "calculate_quality_score QualityScorer_init [(''camera'', ''1MP'')] ''smartphone'' = 4885 / 108"
  by code_simp

text \<open>
  Claim C6, as the code has it.  The final score is \<open>quality_score * (rating / 5)\<close>
  rounded to two decimal places: a multiple of \<open>1/100\<close> within \<open>1/200\<close> of the product.
  A rating of 0 gives 0.  A rating of 5 gives the quality score rounded to two decimal
  places, which is the quality score itself exactly when that is a multiple of
  \<open>1/100\<close>.
\<close>

theorem final_score_rounding:
  "(\<exists>n::int. calculate_final_score q r = of_int n / 100) \<and>
   \<bar>calculate_final_score q r - q * (r / 5)\<bar> \<le> 1 / 200 \<and>
   calculate_final_score q 0 = 0 \<and>
   (calculate_final_score q 5 = q) = (\<exists>n::int. q = of_int n / 100)"
proof -
  have z: "calculate_final_score q 0 = 0"
    by (simp add: calculate_final_score_def py_round_def round_half_even_def)
  have f: "calculate_final_score q 5 = py_round q 2"
    by (simp add: calculate_final_score_def)
  show ?thesis
    using z py_round2_fixed[of q] py_round2_near[of "q * (r / 5)"]
      py_round2_multiple[of "q * (r / 5)"]
    unfolding f by (simp add: calculate_final_score_def)
qed

text \<open>
  Claim C6 as stated fails: the quality score of a smartphone whose only recognised
  feature is a 1 MP camera is \<open>4885/108 = 45.2314...\<close>, and its final score at rating 5
  is \<open>45.23\<close>, not the quality score.
\<close>

theorem final_score_rating5_not_identity:
  "calculate_final_score
     (calculate_quality_score QualityScorer_init [(''camera'', ''1MP'')] ''smartphone'') 5
   \<noteq> calculate_quality_score QualityScorer_init [(''camera'', ''1MP'')] ''smartphone''"
  unfolding camera_score
  by (simp add: calculate_final_score_def py_round_def round_half_even_def)

section \<open>Properties of the alternative finder\<close>

lemma mset_insert_row: "mset (insert_row r xs) = add_mset r (mset xs)"
  by (induction xs) auto

lemma mset_order_by: "mset (order_by_score_price rows) = mset rows"
  by (induction rows) (simp_all add: order_by_score_price_def mset_insert_row)

lemma set_insert_row: "set (insert_row r xs) = insert r (set xs)"
  by (induction xs) auto

lemma alt_before_total: "\<not> alt_before a b \<Longrightarrow> alt_before b a"
  by (auto simp: alt_before_def score_desc_lt_def split: option.splits)

lemma alt_before_trans: "alt_before a b \<Longrightarrow> alt_before b c \<Longrightarrow> alt_before a c"
  by (auto simp: alt_before_def score_desc_lt_def split: option.splits)

lemma sorted_insert_row:
  "sorted_wrt alt_before xs \<Longrightarrow> sorted_wrt alt_before (insert_row r xs)"
proof (induction xs)
  case Nil
  then show ?case by simp
next
  case (Cons x xs)
  show ?case
  proof (cases "alt_before r x")
    case True
    then have "\<forall>y\<in>set xs. alt_before r y"
      using Cons.prems by (auto intro: alt_before_trans)
    with True Cons.prems show ?thesis by simp
  next
    case False
    then have "alt_before x r" by (rule alt_before_total)
    with False Cons show ?thesis by (auto simp: set_insert_row)
  qed
qed

lemma sorted_order_by: "sorted_wrt alt_before (order_by_score_price rows)"
  by (induction rows) (simp_all add: order_by_score_price_def sorted_insert_row)

lemma sorted_wrt_take_drop:
  assumes "sorted_wrt P xs" "a \<in> set (take n xs)" "x \<in> set (drop n xs)"
  shows "P a x"
proof -
  have "sorted_wrt P (take n xs @ drop n xs)" using assms(1) by simp
  then show ?thesis using assms(2,3) unfolding sorted_wrt_append by blast
qed

lemma mset_drop_diff: "mset (drop n xs) = mset xs - mset (take n xs)"
proof -
  have "mset xs = mset (take n xs) + mset (drop n xs)"
    by (metis append_take_drop_id mset_append)
  then show ?thesis by simp
qed

lemma alt_where_filter:
  "filter (alt_where cat mp ms) tbl =
   filter (\<lambda>r. category r = cat \<and> price r \<le> mp \<and> (\<exists>fs. final_score r = Some fs \<and> ms \<le> fs)) tbl"
  by (rule filter_cong) (auto simp: alt_where_def split: option.splits)

lemma alt_before_scored:
  "final_score a = Some x \<Longrightarrow> final_score b = Some y \<Longrightarrow>
     alt_before a b = (y < x \<or> (y = x \<and> price a \<le> price b))"
  by (auto simp: alt_before_def score_desc_lt_def)

lemma alt_before_explicit:
  assumes "\<exists>x. final_score a = Some x" "\<exists>y. final_score b = Some y" "alt_before a b"
  shows "\<exists>x y. final_score a = Some x \<and> final_score b = Some y \<and>
           (y < x \<or> (y = x \<and> price a \<le> price b))"
  using assms by (auto simp: alt_before_scored)

lemma process_rows_rows:
  "process_rows jl rows = Inr alts \<Longrightarrow> map alt_row alts = rows"
proof (induction rows arbitrary: alts)
  case Nil
  then show ?case by simp
next
  case (Cons r rows)
  then show ?case by (auto split: sum.splits)
qed

lemma parse_specs_ok:
  assumes "\<forall>t e. specs r = Some t \<and> jl t = Inl e \<longrightarrow> e = JSONDecodeError"
  shows "\<exists>sv. parse_specs jl (specs r) = Inr sv"
  using assms by (auto simp: parse_specs_def split: option.splits sum.splits)

lemma process_rows_ok:
  assumes "\<forall>r\<in>set rows. \<forall>t e. specs r = Some t \<and> jl t = Inl e \<longrightarrow> e = JSONDecodeError"
  shows "\<exists>alts. process_rows jl rows = Inr alts"
  using assms
proof (induction rows)
  case Nil
  then show ?case by simp
next
  case (Cons r rows)
  then obtain alts where "process_rows jl rows = Inr alts" by auto
  moreover from Cons.prems obtain sv where "parse_specs jl (specs r) = Inr sv"
    using parse_specs_ok[of r jl] by auto
  ultimately show ?case by simp
qed

lemma process_rows_raises:
  assumes "r \<in> set rows" "specs r = Some t" "t \<noteq> []" "jl t = Inl e" "e \<noteq> JSONDecodeError"
  shows "\<exists>e'. process_rows jl rows = Inl e'"
  using assms(1)
proof (induction rows)
  case Nil
  then show ?case by simp
next
  case (Cons x rows)
  show ?case
  proof (cases "x = r")
    case True
    with assms(2-5) have "parse_specs jl (specs x) = Inl e" by (simp add: parse_specs_def)
    then show ?thesis by simp
  next
    case False
    with Cons obtain e' where "process_rows jl rows = Inl e'" by auto
    then show ?thesis by (auto split: sum.splits)
  qed
qed

lemma sql_limit_take:
  "sql_limit limit xs = take (if limit < 0 then length xs else nat limit) xs"
  by (simp add: sql_limit_def)

text \<open>
  Claim C5, as the code has it.  Let \<open>matching\<close> be the rows of the catalog with the
  given category, a price of at most \<open>max_price\<close> and a final score of at least
  \<open>target_score * 0.9\<close>.  When the query is answered and \<open>json.loads\<close> raises nothing
  but \<open>JSONDecodeError\<close> on the \<open>specs\<close> texts of the catalog, the returned rows are
  matching rows (each at most as often as the catalog has it); there are \<open>limit\<close> of
  them, or all matching rows when these are fewer or the limit is negative; they are
  ordered by descending final score and then ascending price; and every matching row
  that the limit cuts off ranks after every returned row.  In every case the result
  is the empty list or holds all the rows the query selects, and it is the empty list
  when no row matches.  It is the empty list as well when \<open>json.loads\<close> raises another
  exception on the non-empty \<open>specs\<close> text of a selected row.
\<close>

theorem find_alternatives_contract:
  "let matching =
         filter (\<lambda>r. category r = cat \<and> price r \<le> max_price \<and>
                      (\<exists>fs. final_score r = Some fs \<and> target_score * 0.9 \<le> fs)) tbl;
       selected = alternatives_query tbl cat max_price (target_score * 0.9) limit;
       result = find_alternatives jl fl tbl cat target_score max_price limit;
       rs = map alt_row result
   in (fl FindAlternativesQuery = None \<and>
       (\<forall>r\<in>set tbl. \<forall>t e. specs r = Some t \<and> jl t = Inl e \<longrightarrow> e = JSONDecodeError) \<longrightarrow>
         mset rs \<subseteq># mset matching \<and>
         length rs = (if limit < 0 then length matching else min (nat limit) (length matching)) \<and>
         sorted_wrt (\<lambda>a b. \<exists>x y. final_score a = Some x \<and> final_score b = Some y \<and>
                        (y < x \<or> (y = x \<and> price a \<le> price b))) rs \<and>
         (\<forall>a\<in>set rs. \<forall>b\<in>#(mset matching - mset rs).
             \<exists>x y. final_score a = Some x \<and> final_score b = Some y \<and>
               (y < x \<or> (y = x \<and> price a \<le> price b)))) \<and>
      (result = [] \<or> rs = selected) \<and>
      (matching = [] \<longrightarrow> result = []) \<and>
      ((\<exists>r\<in>set selected. \<exists>t e. specs r = Some t \<and> t \<noteq> [] \<and> jl t = Inl e \<and>
           e \<noteq> JSONDecodeError) \<longrightarrow> result = [])"
proof -
  define matching where
    "matching = filter (\<lambda>r. category r = cat \<and> price r \<le> max_price \<and>
                        (\<exists>fs. final_score r = Some fs \<and> target_score * 0.9 \<le> fs)) tbl"
  define srt where "srt = order_by_score_price matching"
  define n where "n = (if limit < 0 then length srt else nat limit)"
  define selected where "selected = alternatives_query tbl cat max_price (target_score * 0.9) limit"
  define result where "result = find_alternatives jl fl tbl cat target_score max_price limit"
  define rs where "rs = map alt_row result"
  have sel: "selected = take n srt"
    by (simp add: selected_def alternatives_query_def sql_limit_take alt_where_filter
        matching_def srt_def n_def)
  have res: "result = (case call fl FindAlternativesQuery selected of
                         Inl e \<Rightarrow> []
                       | Inr results \<Rightarrow> (case process_rows jl results of
                                           Inl e \<Rightarrow> [] | Inr alts \<Rightarrow> alts))"
    by (simp add: result_def find_alternatives_def selected_def)
  have ms: "mset srt = mset matching" by (simp add: srt_def mset_order_by)
  have len: "length srt = length matching" using ms by (metis size_mset)
  have scored: "\<exists>x. final_score r = Some x" if "r \<in> set srt" for r
  proof -
    from that have "r \<in> set matching" using ms by (metis set_mset_mset)
    then show ?thesis by (auto simp: matching_def)
  qed
  have sorted: "sorted_wrt alt_before srt" by (simp add: srt_def sorted_order_by)
  have all_or_nothing: "result = [] \<or> rs = selected"
    unfolding res rs_def
    by (auto simp: call_def process_rows_rows split: option.splits sum.splits)
  have nomatch: "matching = [] \<longrightarrow> result = []"
  proof
    assume "matching = []"
    then have "selected = []" by (simp add: sel srt_def order_by_score_price_def)
    then show "result = []" unfolding res by (simp add: call_def split: option.splits)
  qed
  have raises: "result = []"
    if "\<exists>r\<in>set selected. \<exists>t e. specs r = Some t \<and> t \<noteq> [] \<and> jl t = Inl e \<and>
           e \<noteq> JSONDecodeError"
  proof -
    from that obtain r t e where "r \<in> set selected" "specs r = Some t" "t \<noteq> []"
      "jl t = Inl e" "e \<noteq> JSONDecodeError" by blast
    then obtain e' where "process_rows jl selected = Inl e'"
      using process_rows_raises by blast
    then show ?thesis unfolding res by (simp add: call_def split: option.splits)
  qed
  have main: "mset rs \<subseteq># mset matching \<and>
         length rs = (if limit < 0 then length matching else min (nat limit) (length matching)) \<and>
         sorted_wrt (\<lambda>a b. \<exists>x y. final_score a = Some x \<and> final_score b = Some y \<and>
                        (y < x \<or> (y = x \<and> price a \<le> price b))) rs \<and>
         (\<forall>a\<in>set rs. \<forall>b\<in>#(mset matching - mset rs).
             \<exists>x y. final_score a = Some x \<and> final_score b = Some y \<and>
               (y < x \<or> (y = x \<and> price a \<le> price b)))"
    if ok: "fl FindAlternativesQuery = None"
      and loads: "\<forall>r\<in>set tbl. \<forall>t e. specs r = Some t \<and> jl t = Inl e \<longrightarrow> e = JSONDecodeError"
  proof -
    have "set selected \<subseteq> set tbl"
    proof -
      have "set selected \<subseteq> set srt" unfolding sel by (rule set_take_subset)
      also have "\<dots> = set matching" using ms by (metis set_mset_mset)
      also have "\<dots> \<subseteq> set tbl" by (auto simp: matching_def)
      finally show ?thesis .
    qed
    with loads have "\<forall>r\<in>set selected. \<forall>t e. specs r = Some t \<and> jl t = Inl e \<longrightarrow> e = JSONDecodeError"
      by blast
    then obtain alts where alts: "process_rows jl selected = Inr alts"
      using process_rows_ok by blast
    have rs: "rs = take n srt"
      unfolding rs_def res using ok alts process_rows_rows[OF alts]
      by (simp add: call_def sel)
    have c1: "mset rs \<subseteq># mset matching"
    proof -
      have "mset (take n srt) \<subseteq># mset srt"
        by (metis append_take_drop_id mset_append mset_subset_eq_add_left)
      then show ?thesis by (simp add: rs ms)
    qed
    have c2: "length rs = (if limit < 0 then length matching else min (nat limit) (length matching))"
      by (simp add: rs n_def len min.commute)
    have "sorted_wrt alt_before rs" unfolding rs using sorted by (rule sorted_wrt_take)
    then have c3: "sorted_wrt (\<lambda>a b. \<exists>x y. final_score a = Some x \<and> final_score b = Some y \<and>
                         (y < x \<or> (y = x \<and> price a \<le> price b))) rs"
    proof (rule sorted_wrt_mono_rel[rotated])
      fix a b assume "a \<in> set rs" "b \<in> set rs" "alt_before a b"
      moreover from this have "a \<in> set srt" "b \<in> set srt"
        by (auto simp: rs dest: in_set_takeD)
      ultimately show "\<exists>x y. final_score a = Some x \<and> final_score b = Some y \<and>
                         (y < x \<or> (y = x \<and> price a \<le> price b))"
        using scored by (intro alt_before_explicit) auto
    qed
    have c4: "\<forall>a\<in>set rs. \<forall>b\<in>#(mset matching - mset rs).
              \<exists>x y. final_score a = Some x \<and> final_score b = Some y \<and>
                (y < x \<or> (y = x \<and> price a \<le> price b))"
    proof (intro ballI)
      fix a b assume a: "a \<in> set rs" and b: "b \<in># mset matching - mset rs"
      have "mset matching - mset rs = mset (drop n srt)"
        by (simp add: rs mset_drop_diff ms)
      with b have b': "b \<in> set (drop n srt)" by simp
      from a have a': "a \<in> set (take n srt)" by (simp add: rs)
      have "alt_before a b" using sorted a' b' by (rule sorted_wrt_take_drop)
      moreover have "a \<in> set srt" using a' by (rule in_set_takeD)
      moreover have "b \<in> set srt" using b' by (rule in_set_dropD)
      ultimately show "\<exists>x y. final_score a = Some x \<and> final_score b = Some y \<and>
                (y < x \<or> (y = x \<and> price a \<le> price b))"
        using scored by (intro alt_before_explicit) auto
    qed
    from c1 c2 c3 c4 show ?thesis by blast
  qed
  show ?thesis
    unfolding Let_def matching_def[symmetric] selected_def[symmetric] result_def[symmetric]
      rs_def[symmetric]
    using main all_or_nothing nomatch raises by blast
qed

lemma deep_text_nonempty: "deep_text \<noteq> []"
  by (simp add: deep_text_def)

lemmas finder_defs = find_alternatives_def call_def no_faults_def alternatives_query_def
  sql_limit_def order_by_score_price_def fixture_rows_def deep_rows_def mk_row_def
  alt_where_def alt_before_def score_desc_lt_def parse_specs_def no_json_def deep_loads_def

text \<open>
  The contract at the fixture, with the limit 2 cutting off one of the three matching
  rows; and at the fixture with the deeply nested \<open>specs\<close> text, where the loop over
  the selected rows is left by a \<open>RecursionError\<close>.
\<close>

theorem find_alternatives_contract_fixture:
  "(let matching =
           filter (\<lambda>r. category r = ''headphones'' \<and> price r \<le> 1000 \<and>
                        (\<exists>fs. final_score r = Some fs \<and> 80 * 0.9 \<le> fs)) fixture_rows;
         rs = map alt_row (find_alternatives no_json no_faults fixture_rows ''headphones'' 80 1000 2)
     in mset rs \<subseteq># mset matching \<and>
        length rs = (if (2::int) < 0 then length matching else min (nat 2) (length matching)) \<and>
        sorted_wrt (\<lambda>a b. \<exists>x y. final_score a = Some x \<and> final_score b = Some y \<and>
                       (y < x \<or> (y = x \<and> price a \<le> price b))) rs \<and>
        (\<forall>a\<in>set rs. \<forall>b\<in>#(mset matching - mset rs).
            \<exists>x y. final_score a = Some x \<and> final_score b = Some y \<and>
              (y < x \<or> (y = x \<and> price a \<le> price b)))) \<and>
   find_alternatives deep_loads no_faults deep_rows ''headphones'' 80 1000 2 = []"
proof -
  note t1 = find_alternatives_contract[where jl = no_json and fl = no_faults
      and tbl = fixture_rows and cat = "''headphones''" and target_score = 80
      and max_price = 1000 and limit = 2, unfolded Let_def]
  note t2 = find_alternatives_contract[where jl = deep_loads and fl = no_faults
      and tbl = deep_rows and cat = "''headphones''" and target_score = 80
      and max_price = 1000 and limit = 2, unfolded Let_def]
  have h1: "no_faults FindAlternativesQuery = None \<and>
      (\<forall>r\<in>set fixture_rows. \<forall>t e. specs r = Some t \<and> no_json t = Inl e \<longrightarrow> e = JSONDecodeError)"
    by (simp add: no_faults_def no_json_def)
  have h2: "\<exists>r\<in>set (alternatives_query deep_rows ''headphones'' 1000 (80 * 0.9) 2).
      \<exists>t e. specs r = Some t \<and> t \<noteq> [] \<and> deep_loads t = Inl e \<and> e \<noteq> JSONDecodeError"
    by (simp add: finder_defs deep_text_nonempty)
  show ?thesis
    unfolding Let_def
    using t1[THEN conjunct1, THEN mp, OF h1]
      t2[THEN conjunct2, THEN conjunct2, THEN conjunct2, THEN mp, OF h2]
    by (rule conjI)
qed

text \<open>
  Claim C5 as stated fails: in the catalog whose product 3 carries the deeply nested
  \<open>specs\<close> text, three rows match the query, and the result is the empty list.
\<close>

theorem find_alternatives_drops_all_rows:
  "length (filter (alt_where ''headphones'' 1000 (80 * 0.9)) deep_rows) = 3 \<and>
   find_alternatives deep_loads no_faults deep_rows ''headphones'' 80 1000 10 = []"
  by (simp add: finder_defs deep_text_nonempty)

text \<open>
  The rows the fixture query returns, best first: 5 and 3 tie on the score, 5 is
  cheaper.  A negative limit returns them all.
\<close>

lemma fixture_result:
  "map (\<lambda>a. row_id (alt_row a))
     (find_alternatives no_json no_faults fixture_rows ''headphones'' 80 1000 10) = [5, 3, 1] \<and>
   map (\<lambda>a. row_id (alt_row a))
     (find_alternatives no_json no_faults fixture_rows ''headphones'' 80 1000 (- 1)) = [5, 3, 1]"
  by (simp add: finder_defs)

section \<open>Properties of the recommendation engine\<close>

subsection \<open>Evaluating the sample data\<close>

lemmas sample_defs = exact_engine_def approx_engine_def indexed_world_def fresh_world_def
  orphan_world_def fixture_rows_def mk_row_def no_faults_def fail_at_def sample_encode_def
  scan_nearest_def sq_dist_def rec_of_def

lemmas reco_defs = get_recommendations_def exact_recommendations_def call_def
  select_described_def select_by_id_def described_def document_of_def text_to_embed_def
  metadata_of_def preview_def entry_of_def

lemma norm2_units: "norm2 [1, 0] = 1" "norm2 [-1, 0] = 1" "norm2 [0, 1] = 1"
  by (simp_all add: norm2_def dot_def)

lemma cosine_opposite: "cosine_sim [-1, 0] [1, 0] = Some (- (1 / (1 + 1 / 10 ^ 10)))"
  by (simp add: cosine_sim_def norm2_units dot_def Let_def)

lemma cosine_same: "cosine_sim [1, 0] [1, 0] = Some (1 / (1 + 1 / 10 ^ 10))"
  by (simp add: cosine_sim_def norm2_units dot_def Let_def)

lemma cosine_orthogonal: "cosine_sim [0, 1] [1, 0] = Some 0"
  by (simp add: cosine_sim_def norm2_units dot_def Let_def)

lemmas cosine_samples = cosine_opposite cosine_same cosine_orthogonal

lemma approx_run:
  "get_recommendations approx_engine no_faults indexed_world 1 5 =
     Some (Inr [rec_of (fixture_rows ! 2) (3333 / 10000) ''item - c'',
                rec_of (fixture_rows ! 1) (1 / 5) ''item - b''])"
  apply (simp add: sample_defs reco_defs)
  apply (simp add: py_round_def round_half_even_def)
  done

lemma exact_run:
  "get_recommendations exact_engine no_faults indexed_world 1 5 =
     Some (Inr [rec_of (fixture_rows ! 2) 0 ''c'', rec_of (fixture_rows ! 1) (- 1) ''b''])"
  apply (simp add: sample_defs reco_defs cosine_samples sort_pairs_desc_def py_take_def)
  apply (simp add: py_round_def round_half_even_def)
  done

subsection \<open>A missing product\<close>

lemma call_Inr_iff: "(call fl st v = Inr x) = (fl st = None \<and> x = v)"
  by (auto simp: call_def split: option.splits)

lemma call_no_faults: "call no_faults st v = Inr v"
  by (simp add: call_def no_faults_def)

text \<open>
  Claim C3, as the code has it.  When the lookup of the target product is answered and
  the catalog has no row with the given id and a non-empty description, the result of
  \<open>get_recommendations\<close> is a normal return of the empty list: no error is raised.
\<close>

theorem missing_product_gives_empty_list:
  assumes "use_chroma eng \<or> fl InitVectorDb = None" and "fl SelectTarget = None"
    and "\<not> (\<exists>r\<in>set (products w). row_id r = pid \<and> (\<exists>d. description r = Some d \<and> d \<noteq> []))"
  shows "get_recommendations eng fl w pid k = Some (Inr [])"
proof -
  have "select_described (products w) pid = None"
    using assms(3) unfolding select_described_def find_None_iff described_def
    by (auto split: option.splits)
  with assms(1,2) show ?thesis
    by (auto simp: get_recommendations_def call_def)
qed

text \<open>Product 4 of the fixture has an empty description.\<close>

theorem missing_product_witness:
  "get_recommendations approx_engine no_faults indexed_world 4 5 = Some (Inr [])"
proof -
  have h1: "use_chroma approx_engine \<or> no_faults InitVectorDb = None"
    by (simp add: approx_engine_def)
  have h2: "no_faults SelectTarget = None" by (simp add: no_faults_def)
  have h3: "\<not> (\<exists>r\<in>set (products indexed_world).
              row_id r = 4 \<and> (\<exists>d. description r = Some d \<and> d \<noteq> []))"
    by (simp add: indexed_world_def fixture_rows_def mk_row_def)
  show ?thesis
    by (rule missing_product_gives_empty_list[where fl = no_faults, OF h1 h2 h3])
qed

text \<open>
  Claim C3 as stated fails: for the id 99, which the catalog does not have, the call
  returns the empty list and raises nothing.
\<close>

theorem absent_product_returns_normally:
  "get_recommendations exact_engine no_faults indexed_world 99 5 = Some (Inr [])"
  by (simp add: sample_defs reco_defs)

subsection \<open>Failures of the collaborators\<close>

lemma enrich_loop_no_faults:
  "enrich_loop fl tbl tops = Inr recs \<Longrightarrow> enrich_loop no_faults tbl tops = Inr recs"
proof (induction tops arbitrary: recs)
  case Nil
  then show ?case by simp
next
  case (Cons p tops)
  obtain rid sim where p: "p = (rid, sim)" by (cases p)
  show ?case
    using Cons.prems Cons.IH unfolding p
    by (auto simp: call_no_faults call_Inr_iff split: sum.splits option.splits)
qed

lemma get_recommendations_no_fallback:
  assumes "get_recommendations eng fl w pid k = Some (Inr recs)"
  shows "get_recommendations eng no_faults w pid k = Some (Inr recs)"
proof (cases "use_chroma eng")
  case True
  with assms show ?thesis
    by (auto simp: get_recommendations_def call_no_faults call_Inr_iff
        split: sum.splits option.splits)
next
  case False
  with assms show ?thesis
    unfolding get_recommendations_def exact_recommendations_def
    by (auto simp: call_no_faults call_Inr_iff
        split: sum.splits option.splits if_splits dest: enrich_loop_no_faults)
qed

lemma lookup_failure_propagates:
  assumes "use_chroma eng \<or> fl InitVectorDb = None" "fl SelectTarget = Some e"
  shows "get_recommendations eng fl w pid k = Some (Inl e)"
  using assms by (auto simp: get_recommendations_def call_def)

lemma encoder_failure_propagates:
  assumes "use_chroma eng \<or> fl InitVectorDb = None" "fl SelectTarget = None"
    "select_described (products w) pid = Some t" "fl Encode = Some e"
  shows "get_recommendations eng fl w pid k = Some (Inl e)"
  using assms by (auto simp: get_recommendations_def call_def)

lemma index_failure_propagates:
  assumes "use_chroma eng \<or> fl InitVectorDb = None" "fl SelectTarget = None"
    "select_described (products w) pid = Some t" "fl Encode = None"
    "fl (if use_chroma eng then ChromaQuery else SelectEmbeddings) = Some e"
  shows "get_recommendations eng fl w pid k = Some (Inl e)"
  using assms
  by (auto simp: get_recommendations_def exact_recommendations_def call_def split: if_splits)

text \<open>
  Claim C4, as the code has it.  \<open>get_recommendations\<close> propagates: a list it returns
  under a fault plan is the list of the run without faults (nothing is substituted),
  and a failure of the catalog lookup, of the embedding model or of the index query is
  the raised error.  \<open>find_alternatives\<close> does not propagate: when its catalog query
  fails it returns the empty list.
\<close>

theorem retrieval_failure_handling:
  "(fl FindAlternativesQuery = Some e \<longrightarrow>
      find_alternatives jl fl tbl cat target_score max_price limit = []) \<and>
   (get_recommendations eng fl w pid k = Some (Inr recs) \<longrightarrow>
      get_recommendations eng no_faults w pid k = Some (Inr recs)) \<and>
   ((use_chroma eng \<or> fl InitVectorDb = None) \<and> fl SelectTarget = Some e \<longrightarrow>
      get_recommendations eng fl w pid k = Some (Inl e)) \<and>
   ((use_chroma eng \<or> fl InitVectorDb = None) \<and> fl SelectTarget = None \<and>
    select_described (products w) pid \<noteq> None \<and> fl Encode = Some e \<longrightarrow>
      get_recommendations eng fl w pid k = Some (Inl e)) \<and>
   ((use_chroma eng \<or> fl InitVectorDb = None) \<and> fl SelectTarget = None \<and>
    select_described (products w) pid \<noteq> None \<and> fl Encode = None \<and>
    fl (if use_chroma eng then ChromaQuery else SelectEmbeddings) = Some e \<longrightarrow>
      get_recommendations eng fl w pid k = Some (Inl e))"
proof (intro conjI impI)
  show "find_alternatives jl fl tbl cat target_score max_price limit = []"
    if "fl FindAlternativesQuery = Some e"
    using that by (simp add: find_alternatives_def call_def)
  show "get_recommendations eng no_faults w pid k = Some (Inr recs)"
    if "get_recommendations eng fl w pid k = Some (Inr recs)"
    using that by (rule get_recommendations_no_fallback)
  show "get_recommendations eng fl w pid k = Some (Inl e)"
    if "(use_chroma eng \<or> fl InitVectorDb = None) \<and> fl SelectTarget = Some e"
    using that by (auto intro: lookup_failure_propagates)
  show "get_recommendations eng fl w pid k = Some (Inl e)"
    if "(use_chroma eng \<or> fl InitVectorDb = None) \<and> fl SelectTarget = None \<and>
        select_described (products w) pid \<noteq> None \<and> fl Encode = Some e"
    using that by (auto intro: encoder_failure_propagates)
  show "get_recommendations eng fl w pid k = Some (Inl e)"
    if "(use_chroma eng \<or> fl InitVectorDb = None) \<and> fl SelectTarget = None \<and>
        select_described (products w) pid \<noteq> None \<and> fl Encode = None \<and>
        fl (if use_chroma eng then ChromaQuery else SelectEmbeddings) = Some e"
    using that by (auto intro: index_failure_propagates)
qed

text \<open>
  The theorem at the fixture: the failing catalog query of \<open>find_alternatives\<close>, and a
  failing index query of each backend.
\<close>

theorem retrieval_failure_witness:
  "find_alternatives no_json (fail_at FindAlternativesQuery DatabaseError) fixture_rows
     ''headphones'' 80 1000 10 = [] \<and>
   get_recommendations approx_engine (fail_at ChromaQuery ChromaError) indexed_world 1 5
     = Some (Inl ChromaError) \<and>
   get_recommendations exact_engine (fail_at SelectEmbeddings DatabaseError) indexed_world 1 5
     = Some (Inl DatabaseError)"
proof -
  have a: "fail_at FindAlternativesQuery DatabaseError FindAlternativesQuery = Some DatabaseError"
    by (simp add: fail_at_def)
  have b: "(use_chroma approx_engine \<or> fail_at ChromaQuery ChromaError InitVectorDb = None) \<and>
      fail_at ChromaQuery ChromaError SelectTarget = None \<and>
      select_described (products indexed_world) 1 \<noteq> None \<and>
      fail_at ChromaQuery ChromaError Encode = None \<and>
      fail_at ChromaQuery ChromaError
        (if use_chroma approx_engine then ChromaQuery else SelectEmbeddings) = Some ChromaError"
    by (simp add: sample_defs reco_defs)
  have c: "(use_chroma exact_engine \<or> fail_at SelectEmbeddings DatabaseError InitVectorDb = None) \<and>
      fail_at SelectEmbeddings DatabaseError SelectTarget = None \<and>
      select_described (products indexed_world) 1 \<noteq> None \<and>
      fail_at SelectEmbeddings DatabaseError Encode = None \<and>
      fail_at SelectEmbeddings DatabaseError
        (if use_chroma exact_engine then ChromaQuery else SelectEmbeddings) = Some DatabaseError"
    by (simp add: sample_defs reco_defs)
  note t1 = retrieval_failure_handling[where fl = "fail_at FindAlternativesQuery DatabaseError"
      and e = DatabaseError and jl = no_json and tbl = fixture_rows and cat = "''headphones''"
      and target_score = 80 and max_price = 1000 and limit = 10]
  note t2 = retrieval_failure_handling[where fl = "fail_at ChromaQuery ChromaError"
      and e = ChromaError and eng = approx_engine and w = indexed_world and pid = 1 and k = 5]
  note t3 = retrieval_failure_handling[where fl = "fail_at SelectEmbeddings DatabaseError"
      and e = DatabaseError and eng = exact_engine and w = indexed_world and pid = 1 and k = 5]
  from t1 a have "find_alternatives no_json (fail_at FindAlternativesQuery DatabaseError)
      fixture_rows ''headphones'' 80 1000 10 = []" by blast
  moreover from t2 b have "get_recommendations approx_engine (fail_at ChromaQuery ChromaError)
      indexed_world 1 5 = Some (Inl ChromaError)" by blast
  moreover from t3 c have "get_recommendations exact_engine
      (fail_at SelectEmbeddings DatabaseError) indexed_world 1 5 = Some (Inl DatabaseError)"
    by blast
  ultimately show ?thesis by blast
qed

text \<open>
  Claim C4 as stated fails: with a failing catalog query \<open>find_alternatives\<close> returns
  the empty list, although the catalog has matching rows.
\<close>

theorem find_alternatives_substitutes_empty_list:
  "find_alternatives no_json (fail_at FindAlternativesQuery DatabaseError) fixture_rows
     ''headphones'' 80 1000 10 = [] \<and>
   find_alternatives no_json no_faults fixture_rows ''headphones'' 80 1000 10 \<noteq> []"
  by (simp add: find_alternatives_def call_def no_faults_def fail_at_def alternatives_query_def
      sql_limit_def order_by_score_price_def fixture_rows_def mk_row_def alt_where_def
      alt_before_def score_desc_lt_def parse_specs_def)

subsection \<open>Range of the similarity scores\<close>

lemma round_half_even_ge: "of_int n \<le> y \<Longrightarrow> n \<le> round_half_even y"
  unfolding round_half_even_def Let_def by (auto simp: le_floor_iff) linarith+

lemma round_half_even_le:
  assumes a: "y \<le> of_int n"
  shows "round_half_even y \<le> n"
proof -
  have f: "\<lfloor>y\<rfloor> \<le> n" using a by (simp add: floor_le_iff)
  show ?thesis
  proof (cases "\<lfloor>y\<rfloor> = n")
    case True
    then have "y = of_int n" using a by linarith
    then show ?thesis by (simp add: round_half_even_def)
  next
    case False
    with f have "\<lfloor>y\<rfloor> + 1 \<le> n" by simp
    then show ?thesis unfolding round_half_even_def Let_def by auto
  qed
qed

lemma py_round_bounds:
  assumes "of_int a \<le> x" "x \<le> of_int b"
  shows "of_int a \<le> py_round x n \<and> py_round x n \<le> of_int b"
proof -
  have p: "(0::real) < 10 ^ n" by simp
  have "of_int (a * 10 ^ n) \<le> x * 10 ^ n" using assms(1) p by simp
  then have 1: "a * 10 ^ n \<le> round_half_even (x * 10 ^ n)" by (rule round_half_even_ge)
  have "x * 10 ^ n \<le> of_int (b * 10 ^ n)" using assms(2) p by simp
  then have 2: "round_half_even (x * 10 ^ n) \<le> b * 10 ^ n" by (rule round_half_even_le)
  have "of_int a * 10 ^ n \<le> (of_int (round_half_even (x * 10 ^ n)) :: real)"
    using 1 by (metis of_int_le_iff of_int_mult of_int_numeral of_int_power)
  moreover have "(of_int (round_half_even (x * 10 ^ n)) :: real) \<le> of_int b * 10 ^ n"
    using 2 by (metis of_int_le_iff of_int_mult of_int_numeral of_int_power)
  ultimately show ?thesis using p by (simp add: py_round_def field_simps)
qed

lemma py_round_unit: "0 \<le> x \<Longrightarrow> x \<le> 1 \<Longrightarrow> 0 \<le> py_round x n \<and> py_round x n \<le> 1"
  using py_round_bounds[of 0 x 1 n] by simp

lemma py_round_sym_unit: "- 1 \<le> x \<Longrightarrow> x \<le> 1 \<Longrightarrow> - 1 \<le> py_round x n \<and> py_round x n \<le> 1"
  using py_round_bounds[of "- 1" x 1 n] by simp

lemma dot_Nil: "dot [] b = 0" "dot a [] = 0"
  by (simp_all add: dot_def)

lemma dot_Cons: "dot (x # xs) (y # ys) = x * y + dot xs ys"
  by (simp add: dot_def)

lemma dot_self_nonneg: "0 \<le> dot a a"
  by (induction a) (simp_all add: dot_Nil dot_Cons)

text \<open>The induction step of the Cauchy-Schwarz inequality.\<close>

lemma cs_step:
  fixes x y S A B :: real
  assumes "S * S \<le> A * B" "0 \<le> A" "0 \<le> B"
  shows "(x * y + S) * (x * y + S) \<le> (x * x + A) * (y * y + B)"
proof -
  define u where "u = x * x * B"
  define v where "v = y * y * A"
  define p where "p = x * y * S"
  have u: "0 \<le> u" and v: "0 \<le> v" using assms by (simp_all add: u_def v_def)
  have "p * p = (x * x) * (y * y) * (S * S)" by (simp add: p_def algebra_simps)
  also have "\<dots> \<le> (x * x) * (y * y) * (A * B)"
    using assms(1) by (intro mult_left_mono) simp_all
  also have "\<dots> = u * v" by (simp add: u_def v_def algebra_simps)
  finally have pp: "p * p \<le> u * v" .
  have "2 * p \<le> u + v"
  proof (rule ccontr)
    assume "\<not> 2 * p \<le> u + v"
    then have gt: "u + v < 2 * p" by simp
    then have "0 \<le> u + v" "0 < 2 * p" using u v by simp_all
    then have "(u + v) * (u + v) < (2 * p) * (2 * p)"
      using gt by (intro mult_strict_mono) simp_all
    moreover have "4 * (u * v) \<le> (u + v) * (u + v)"
    proof -
      have "0 \<le> (u - v) * (u - v)" by simp
      then show ?thesis by (simp add: algebra_simps)
    qed
    ultimately have "u * v < p * p" by (simp add: algebra_simps)
    with pp show False by simp
  qed
  then have "2 * (x * y * S) \<le> x * x * B + y * y * A"
    by (simp add: u_def v_def p_def)
  with assms(1) show ?thesis by (simp add: algebra_simps)
qed

lemma cauchy_schwarz_dot: "dot a b * dot a b \<le> dot a a * dot b b"
proof (induction a b rule: list_induct2')
  case (4 x xs y ys)
  then show ?case by (simp add: cs_step dot_self_nonneg dot_Cons)
qed (simp_all add: dot_Nil)

lemma abs_dot_le: "\<bar>dot a b\<bar> \<le> norm2 a * norm2 b"
proof -
  have "\<bar>dot a b\<bar> = sqrt (dot a b * dot a b)" by simp
  also have "\<dots> \<le> sqrt (dot a a * dot b b)"
    using cauchy_schwarz_dot by (simp only: real_sqrt_le_iff)
  also have "\<dots> = norm2 a * norm2 b" by (simp add: norm2_def real_sqrt_mult)
  finally show ?thesis .
qed

lemma norm2_nonneg: "0 \<le> norm2 a"
  by (simp add: norm2_def dot_self_nonneg)

lemma cosine_sim_range:
  assumes "cosine_sim e t = Some s"
  shows "- 1 \<le> s \<and> s \<le> 1"
proof -
  define d where "d = norm2 e * (norm2 t + 1 / 10 ^ 10)"
  from assms have dn: "d \<noteq> 0" and s: "s = dot e t / d"
    by (auto simp: cosine_sim_def Let_def d_def split: if_splits)
  have "0 \<le> d" by (simp add: d_def norm2_nonneg)
  with dn have dp: "0 < d" by simp
  have "norm2 e * norm2 t \<le> d"
    unfolding d_def by (intro mult_left_mono) (simp_all add: norm2_nonneg)
  with abs_dot_le[of e t] have "\<bar>dot e t\<bar> \<le> d" by simp
  then have "\<bar>s\<bar> \<le> 1" using dp by (simp add: s)
  then show ?thesis by (simp add: abs_le_iff)
qed

lemma similarity_pairs_range:
  "similarity_pairs pid t rows = Some ps \<Longrightarrow> \<forall>p\<in>set ps. - 1 \<le> snd p \<and> snd p \<le> 1"
proof (induction rows arbitrary: ps)
  case Nil
  then show ?case by simp
next
  case (Cons row rows)
  obtain rid e where row: "row = (rid, e)" by (cases row)
  show ?case
  proof (cases "rid = pid")
    case True
    with Cons.prems have "similarity_pairs pid t rows = Some ps" by (simp add: row)
    then show ?thesis by (rule Cons.IH)
  next
    case False
    with Cons.prems obtain sim ps' where
      sim: "cosine_sim e t = Some sim" and
      ps': "similarity_pairs pid t rows = Some ps'" and
      ps: "ps = (rid, sim) # ps'"
      by (auto simp: row split: option.splits)
    from cosine_sim_range[OF sim] Cons.IH[OF ps'] show ?thesis by (simp add: ps)
  qed
qed

lemma set_insert_pair: "set (insert_pair p xs) = insert p (set xs)"
  by (induction xs) auto

lemma set_sort_pairs_desc: "set (sort_pairs_desc ps) = set ps"
  by (induction ps) (simp_all add: sort_pairs_desc_def set_insert_pair)

lemma set_py_take: "set (py_take k xs) \<subseteq> set xs"
  by (auto simp: py_take_def dest: in_set_takeD)

lemma enrich_loop_scores:
  assumes "enrich_loop fl tbl tops = Inr recs"
    and "\<forall>p\<in>set tops. - 1 \<le> snd p \<and> snd p \<le> 1"
  shows "\<forall>r\<in>set recs. - 1 \<le> similarity_score r \<and> similarity_score r \<le> 1"
  using assms
proof (induction tops arbitrary: recs)
  case Nil
  then show ?case by simp
next
  case (Cons p tops)
  obtain rid sim where p: "p = (rid, sim)" by (cases p)
  from Cons.prems(2) have sim: "- 1 \<le> sim" "sim \<le> 1"
    and rest: "\<forall>p\<in>set tops. - 1 \<le> snd p \<and> snd p \<le> 1"
    by (simp_all add: p)
  show ?case
    using Cons.prems(1) Cons.IH[OF _ rest] py_round_sym_unit[OF sim, of 4] unfolding p
    by (auto split: sum.splits option.splits)
qed

lemma chroma_loop_scores:
  assumes "chroma_loop pid k hits acc = Inr recs"
    and "\<forall>h\<in>set hits. 0 \<le> snd h"
    and "\<forall>r\<in>set acc. 0 \<le> similarity_score r \<and> similarity_score r \<le> 1"
  shows "\<forall>r\<in>set recs. 0 \<le> similarity_score r \<and> similarity_score r \<le> 1"
  using assms
proof (induction hits arbitrary: acc)
  case Nil
  then show ?case by auto
next
  case (Cons h hits)
  obtain e d where h: "h = (e, d)" by (cases h)
  from Cons.prems(2) have d: "0 \<le> d" and rest: "\<forall>h\<in>set hits. 0 \<le> snd h"
    by (simp_all add: h)
  have "0 \<le> 1 / (1 + d)" "1 / (1 + d) \<le> 1" using d by simp_all
  then have rd: "0 \<le> py_round (1 / (1 + d)) 4 \<and> py_round (1 / (1 + d)) 4 \<le> 1"
    by (rule py_round_unit)
  show ?case
  proof (cases "entry_id e = pid")
    case True
    with Cons.prems(1) have "chroma_loop pid k hits acc = Inr recs" by (simp add: h)
    then show ?thesis using rest Cons.prems(3) by (rule Cons.IH)
  next
    case False
    define r where "r = \<lparr>rec_id = entry_id e, rec_name = md_name (entry_metadata e),
                rec_category = md_category (entry_metadata e),
                rec_price = md_price (entry_metadata e),
                rec_rating = md_rating (entry_metadata e),
                rec_platform = md_platform (entry_metadata e),
                similarity_score = py_round (1 / (1 + d)) 4,
                description_preview = preview (entry_document e)\<rparr>"
    have acc': "\<forall>x\<in>set (r # acc). 0 \<le> similarity_score x \<and> similarity_score x \<le> 1"
      using Cons.prems(3) rd by (simp add: r_def)
    have nz: "1 + d \<noteq> 0" using d by simp
    show ?thesis
    proof (cases "k \<le> int (length (r # acc))")
      case True
      with Cons.prems(1) False nz have "recs = rev (r # acc)"
        by (simp add: h Let_def r_def)
      with acc' show ?thesis by simp
    next
      case stop: False
      with Cons.prems(1) False nz have "chroma_loop pid k hits (r # acc) = Inr recs"
        by (simp add: h Let_def r_def)
      then show ?thesis using rest acc' by (rule Cons.IH)
    qed
  qed
qed

text \<open>
  Claim C7, as the code has it.  On the approximate backend every similarity score of
  a returned recommendation lies in \<open>[0, 1]\<close>, provided the index reports no negative
  distance.  On the exact backend the score is the rounded cosine similarity of the
  stored vector and the query vector, which lies in \<open>[-1, 1]\<close>; a stored zero
  vector, whose similarity is \<open>nan\<close>, is outside the model.
\<close>

theorem similarity_score_ranges:
  assumes res: "get_recommendations eng fl w pid k = Some (Inr recs)"
    and dist: "use_chroma eng \<Longrightarrow>
                 \<forall>q. \<forall>h\<in>set (chroma_nearest eng (collection w) q (k + 1)). 0 \<le> snd h"
  shows "list_all (\<lambda>r. (if use_chroma eng then 0 else - 1) \<le> similarity_score r \<and>
                        similarity_score r \<le> 1) recs"
proof (cases "use_chroma eng")
  case True
  from res True obtain t where
    loop: "chroma_loop pid k
             (chroma_nearest eng (collection w) (encode eng (text_to_embed t)) (k + 1)) [] = Inr recs
           \<or> recs = []"
    by (auto simp: get_recommendations_def call_Inr_iff split: sum.splits option.splits)
  have "\<forall>r\<in>set recs. 0 \<le> similarity_score r \<and> similarity_score r \<le> 1"
  proof (cases "recs = []")
    case True
    then show ?thesis by simp
  next
    case False
    with loop have "chroma_loop pid k
        (chroma_nearest eng (collection w) (encode eng (text_to_embed t)) (k + 1)) [] = Inr recs"
      by simp
    moreover have "\<forall>h\<in>set (chroma_nearest eng (collection w)
        (encode eng (text_to_embed t)) (k + 1)). 0 \<le> snd h"
      using dist[OF True] by blast
    ultimately show ?thesis
      by (rule chroma_loop_scores[where acc = "[]"]) simp
  qed
  with True show ?thesis by (simp add: list_all_iff)
next
  case False
  have "\<forall>r\<in>set recs. - 1 \<le> similarity_score r \<and> similarity_score r \<le> 1"
  proof (cases "recs = []")
    case True
    then show ?thesis by simp
  next
    case ne: False
    from res False ne obtain t ps where
      ps: "similarity_pairs pid t (product_embeddings w) = Some ps"
      and loop: "enrich_loop fl (products w) (py_take k (sort_pairs_desc ps)) = Inr recs"
      unfolding get_recommendations_def exact_recommendations_def
      by (auto simp: call_Inr_iff split: sum.splits option.splits if_splits)
    have "\<forall>p\<in>set (py_take k (sort_pairs_desc ps)). - 1 \<le> snd p \<and> snd p \<le> 1"
      using similarity_pairs_range[OF ps] set_py_take[of k "sort_pairs_desc ps"]
      by (auto simp: set_sort_pairs_desc)
    with loop show ?thesis by (rule enrich_loop_scores)
  qed
  with False show ?thesis by (simp add: list_all_iff)
qed

text \<open>
  The theorem at the indexed fixture, for both backends: the stand-in index reports
  squared distances, and product 1 gets the recommendations 3 and 2.
\<close>

lemma sq_dist_nonneg: "0 \<le> sq_dist a b"
  unfolding sq_dist_def by (induction a b rule: list_induct2') simp_all

lemma set_insert_hit: "set (insert_hit h xs) = insert h (set xs)"
  by (induction xs) auto

lemma scan_nearest_nonneg: "\<forall>h\<in>set (scan_nearest coll q n). 0 \<le> snd h"
proof -
  have "set (foldr insert_hit hs []) = set hs" for hs
    by (induction hs) (simp_all add: set_insert_hit)
  then show ?thesis
    unfolding scan_nearest_def by (auto dest!: in_set_takeD simp: sq_dist_nonneg)
qed

theorem similarity_score_ranges_witness:
  "list_all (\<lambda>r. 0 \<le> similarity_score r \<and> similarity_score r \<le> 1)
     [rec_of (fixture_rows ! 2) (3333 / 10000) ''item - c'',
      rec_of (fixture_rows ! 1) (1 / 5) ''item - b''] \<and>
   list_all (\<lambda>r. - 1 \<le> similarity_score r \<and> similarity_score r \<le> 1)
     [rec_of (fixture_rows ! 2) 0 ''c'', rec_of (fixture_rows ! 1) (- 1) ''b'']"
proof -
  have ua: "use_chroma approx_engine" by (simp add: approx_engine_def)
  have ue: "\<not> use_chroma exact_engine" by (simp add: exact_engine_def)
  have da: "\<forall>q. \<forall>h\<in>set (chroma_nearest approx_engine (collection indexed_world) q (5 + 1)).
              0 \<le> snd h"
    using scan_nearest_nonneg by (simp add: approx_engine_def)
  have de: "use_chroma exact_engine \<Longrightarrow>
      \<forall>q. \<forall>h\<in>set (chroma_nearest exact_engine (collection indexed_world) q (5 + 1)).
              0 \<le> snd h"
    using ue by simp
  from similarity_score_ranges[OF approx_run da] ua
  have a: "list_all (\<lambda>r. 0 \<le> similarity_score r \<and> similarity_score r \<le> 1)
     [rec_of (fixture_rows ! 2) (3333 / 10000) ''item - c'',
      rec_of (fixture_rows ! 1) (1 / 5) ''item - b'']"
    by simp
  from similarity_score_ranges[OF exact_run de] ue
  have b: "list_all (\<lambda>r. - 1 \<le> similarity_score r \<and> similarity_score r \<le> 1)
     [rec_of (fixture_rows ! 2) 0 ''c'', rec_of (fixture_rows ! 1) (- 1) ''b'']"
    by simp
  from a b show ?thesis by (rule conjI)
qed

text \<open>
  Claim C7 as stated fails on the exact backend: the vectors of the products 1 and 2
  point in opposite directions, and the recommendation of product 2 for product 1
  carries the similarity score \<open>-1\<close>.
\<close>

theorem exact_backend_negative_similarity:
  "get_recommendations exact_engine no_faults indexed_world 1 5 =
     Some (Inr [rec_of (fixture_rows ! 2) 0 ''c'', rec_of (fixture_rows ! 1) (- 1) ''b'']) \<and>
   similarity_score (rec_of (fixture_rows ! 1) (- 1) ''b'') < 0"
  using exact_run by (simp add: rec_of_def)

text \<open>
  Claim C10.  In the exact backend an id of the top list without a row in \<open>products\<close>
  is skipped and nothing takes its place: in the catalog from which product 2 has been
  deleted, two vectors other than the one of product 1 are stored and product 3 still
  has its row, yet the request for one recommendation for product 1 returns none.
\<close>

theorem orphan_embedding_is_not_backfilled:
  "\<not> use_chroma exact_engine \<and>
   length (filter (\<lambda>r. fst r \<noteq> 1) (product_embeddings orphan_world)) = 2 \<and>
   select_by_id (products orphan_world) 2 = None \<and>
   select_by_id (products orphan_world) 3 \<noteq> None \<and>
   get_recommendations exact_engine no_faults orphan_world 1 1 = Some (Inr []) \<and>
   length (projr (the (get_recommendations exact_engine no_faults orphan_world 1 1))) < 1"
  by (simp add: sample_defs reco_defs cosine_samples sort_pairs_desc_def py_take_def)

subsection \<open>Index writes\<close>

lemmas write_defs = generate_embeddings_for_all_products_def add_product_embedding_def
  sqlite_store_def chroma_clear_def chroma_add_def insert_or_replace_def vectors_for_def

text \<open>What the insert loop leaves in the table when it runs to its end.\<close>

lemma insert_loop_table:
  assumes "insert_loop fl new_rows tbl = Inr tbl'" and "distinct (map fst tbl)"
  shows "distinct (map fst tbl') \<and>
         fst ` set tbl' = fst ` set tbl \<union> fst ` set new_rows \<and>
         set tbl' \<subseteq> set tbl \<union> set new_rows"
  using assms
proof (induction new_rows arbitrary: tbl)
  case Nil
  then show ?case by simp
next
  case (Cons row new_rows)
  obtain pid emb where row: "row = (pid, emb)" by (cases row)
  define tbl1 where "tbl1 = insert_or_replace pid emb tbl"
  from Cons.prems(1) have loop: "insert_loop fl new_rows tbl1 = Inr tbl'"
    by (auto simp: row tbl1_def call_Inr_iff split: sum.splits)
  have d1: "distinct (map fst tbl1)"
    using Cons.prems(2) by (auto simp: tbl1_def insert_or_replace_def distinct_map_filter)
  have k1: "fst ` set tbl1 = insert pid (fst ` set tbl)"
    by (auto simp: tbl1_def insert_or_replace_def image_iff)
  have s1: "set tbl1 \<subseteq> insert (pid, emb) (set tbl)"
    by (auto simp: tbl1_def insert_or_replace_def)
  from Cons.IH[OF loop d1] k1 s1 show ?case by (auto simp: row)
qed

lemma sqlite_store_outcome:
  assumes "sqlite_store fl new_rows w = (r, w')"
  shows "(\<exists>e. r = Inl e \<and> w' = w) \<or>
         (\<exists>tbl. r = Inr () \<and> w' = w\<lparr>product_embeddings := tbl\<rparr> \<and> distinct (map fst tbl) \<and>
                fst ` set tbl = fst ` set new_rows \<and> set tbl \<subseteq> set new_rows)"
proof (cases r)
  case (Inl e)
  with assms show ?thesis
    by (auto simp: sqlite_store_def split: sum.splits)
next
  case (Inr u)
  with assms obtain tbl where loop: "insert_loop fl new_rows [] = Inr tbl"
    and w': "w' = w\<lparr>product_embeddings := tbl\<rparr>"
    by (auto simp: sqlite_store_def call_Inr_iff split: sum.splits)
  from insert_loop_table[OF loop] Inr w' show ?thesis by auto
qed

lemma chroma_clear_cases: "chroma_clear fl coll = coll \<or> chroma_clear fl coll = []"
proof -
  have "filter (\<lambda>e. entry_id e \<notin> set (map entry_id coll)) coll = []"
    by (auto simp: filter_empty_conv)
  then show ?thesis
    by (auto simp: chroma_clear_def call_def split: option.splits)
qed

lemma chroma_clear_ok:
  "fl ChromaGet = None \<Longrightarrow> fl ChromaDelete = None \<Longrightarrow> chroma_clear fl coll = []"
proof -
  assume a: "fl ChromaGet = None" "fl ChromaDelete = None"
  have "filter (\<lambda>e. entry_id e \<notin> set (map entry_id coll)) coll = []"
    by (auto simp: filter_empty_conv)
  with a show ?thesis
    by (cases coll) (auto simp: chroma_clear_def call_def)
qed

text \<open>
  Claim C8, as the code has it.  On the exact backend the rebuild is all or nothing: a
  failure leaves the world as it was, and a success over a catalog with a described
  product changes the embeddings table only, which then holds one vector per described
  product, the encoding of its text.  When no product has a non-empty description the
  rebuild returns without touching the index, on either backend.  On the approximate
  backend the collection is cleared before the new entries are added: after a failure
  the collection is the prior one or empty, and after a success whose clearing step
  did not fail it holds exactly the new entries.
\<close>

theorem reindex_all_outcomes:
  assumes run: "generate_embeddings_for_all_products eng fl w = (r, w')"
  shows
    "(\<not> use_chroma eng \<and> r \<noteq> Inr () \<longrightarrow> w' = w) \<and>
     (\<not> use_chroma eng \<and> r = Inr () \<and> filter described (products w) \<noteq> [] \<longrightarrow>
        w' = w\<lparr>product_embeddings := product_embeddings w'\<rparr> \<and>
        distinct (map fst (product_embeddings w')) \<and>
        fst ` set (product_embeddings w') = row_id ` set (filter described (products w)) \<and>
        list_all (\<lambda>iv. list_ex (\<lambda>p. row_id p = fst iv \<and> snd iv = encode eng (text_to_embed p))
                          (filter described (products w)))
          (product_embeddings w')) \<and>
     (r = Inr () \<and> filter described (products w) = [] \<longrightarrow> w' = w) \<and>
     (use_chroma eng \<and> r \<noteq> Inr () \<longrightarrow> w' = w \<or> w' = w\<lparr>collection := []\<rparr>) \<and>
     (use_chroma eng \<and> r = Inr () \<and> filter described (products w) \<noteq> [] \<and>
      fl ChromaGet = None \<and> fl ChromaDelete = None \<longrightarrow>
        w' = w\<lparr>collection := map (entry_of eng) (filter described (products w))\<rparr>)"
proof -
  define prods where "prods = filter described (products w)"
  define new_rows where "new_rows = map (\<lambda>e. (entry_id e, entry_embedding e)) (map (entry_of eng) prods)"
  have sq: "(\<exists>e. r = Inl e \<and> w' = w) \<or>
         (\<exists>tbl. r = Inr () \<and> w' = w\<lparr>product_embeddings := tbl\<rparr> \<and> distinct (map fst tbl) \<and>
                fst ` set tbl = fst ` set new_rows \<and> set tbl \<subseteq> set new_rows)"
    if nc: "\<not> use_chroma eng" and ne: "prods \<noteq> []"
  proof (cases "sqlite_store fl new_rows w = (r, w')")
    case True
    then show ?thesis by (rule sqlite_store_outcome)
  next
    case False
    with run nc ne have "\<exists>e. r = Inl e \<and> w' = w"
      unfolding generate_embeddings_for_all_products_def prods_def[symmetric]
      by (auto simp: call_def new_rows_def split: option.splits sum.splits if_splits)
    then show ?thesis by blast
  qed
  have empty: "r = Inr () \<Longrightarrow> prods = [] \<Longrightarrow> w' = w"
    using run
    unfolding generate_embeddings_for_all_products_def prods_def[symmetric]
    by (auto simp: call_def split: option.splits sum.splits if_splits)
  have c1: "\<not> use_chroma eng \<and> r \<noteq> Inr () \<longrightarrow> w' = w"
  proof (intro impI, elim conjE)
    assume nc: "\<not> use_chroma eng" and nr: "r \<noteq> Inr ()"
    show "w' = w"
    proof (cases "prods = []")
      case True
      with run nc nr show ?thesis
        unfolding generate_embeddings_for_all_products_def prods_def[symmetric]
        by (auto simp: call_def split: option.splits sum.splits if_splits)
    next
      case False
      from sq[OF nc False] nr show ?thesis by auto
    qed
  qed
  have c2: "\<not> use_chroma eng \<and> r = Inr () \<and> prods \<noteq> [] \<longrightarrow>
        w' = w\<lparr>product_embeddings := product_embeddings w'\<rparr> \<and>
        distinct (map fst (product_embeddings w')) \<and>
        fst ` set (product_embeddings w') = row_id ` set prods \<and>
        list_all (\<lambda>iv. list_ex (\<lambda>p. row_id p = fst iv \<and> snd iv = encode eng (text_to_embed p))
                          prods)
          (product_embeddings w')"
  proof (intro impI, elim conjE)
    assume nc: "\<not> use_chroma eng" and ok: "r = Inr ()" and ne: "prods \<noteq> []"
    from sq[OF nc ne] ok obtain tbl where
      w': "w' = w\<lparr>product_embeddings := tbl\<rparr>" and d: "distinct (map fst tbl)"
      and k: "fst ` set tbl = fst ` set new_rows" and s: "set tbl \<subseteq> set new_rows"
      by auto
    have keys: "fst ` set new_rows = row_id ` set prods"
      by (auto simp: new_rows_def entry_of_def image_iff)
    have vals: "list_ex (\<lambda>p. row_id p = fst iv \<and> snd iv = encode eng (text_to_embed p)) prods"
      if "iv \<in> set tbl" for iv
    proof -
      from that s have "iv \<in> set new_rows" by blast
      then show ?thesis by (auto simp: new_rows_def entry_of_def list_ex_iff)
    qed
    show "w' = w\<lparr>product_embeddings := product_embeddings w'\<rparr> \<and>
        distinct (map fst (product_embeddings w')) \<and>
        fst ` set (product_embeddings w') = row_id ` set prods \<and>
        list_all (\<lambda>iv. list_ex (\<lambda>p. row_id p = fst iv \<and> snd iv = encode eng (text_to_embed p))
                          prods)
          (product_embeddings w')"
      using d k keys vals by (simp add: w' list_all_iff)
  qed
  have c4: "use_chroma eng \<and> r \<noteq> Inr () \<longrightarrow> w' = w \<or> w' = w\<lparr>collection := []\<rparr>"
  proof (intro impI, elim conjE)
    assume uc: "use_chroma eng" and nr: "r \<noteq> Inr ()"
    from run uc nr have "w' = w \<or> w' = w\<lparr>collection := chroma_clear fl (collection w)\<rparr>"
      unfolding generate_embeddings_for_all_products_def
      by (auto simp: call_def Let_def split: option.splits sum.splits if_splits)
    then show "w' = w \<or> w' = w\<lparr>collection := []\<rparr>"
      using chroma_clear_cases[of fl "collection w"] by auto
  qed
  have c5: "use_chroma eng \<and> r = Inr () \<and> prods \<noteq> [] \<and>
      fl ChromaGet = None \<and> fl ChromaDelete = None \<longrightarrow>
        w' = w\<lparr>collection := map (entry_of eng) prods\<rparr>"
  proof (intro impI, elim conjE)
    assume uc: "use_chroma eng" and ok: "r = Inr ()" and ne: "prods \<noteq> []"
      and g: "fl ChromaGet = None" and d: "fl ChromaDelete = None"
    have cl: "chroma_clear fl (collection w) = []" using g d by (rule chroma_clear_ok)
    from run uc ok ne show "w' = w\<lparr>collection := map (entry_of eng) prods\<rparr>"
      unfolding generate_embeddings_for_all_products_def prods_def[symmetric] cl
      by (auto simp: call_def Let_def chroma_add_def split: option.splits sum.splits if_splits)
  qed
  show ?thesis
    using c1 c2 empty c4 c5 unfolding prods_def by blast
qed

text \<open>
  The theorem at the fixture: on the exact backend a rebuild whose second insert fails
  leaves the indexed world as it was, and on the approximate backend the rebuild of
  the fresh world stores the entries of the three described products.
\<close>

lemma exact_rebuild_fails:
  "fst (generate_embeddings_for_all_products exact_engine
          (fail_at (InsertEmbedding 2) DatabaseError) indexed_world) = Inl DatabaseError"
  by (simp add: write_defs sample_defs reco_defs)

lemma approx_rebuild_succeeds:
  "fst (generate_embeddings_for_all_products approx_engine no_faults fresh_world) = Inr ()"
  by (simp add: write_defs sample_defs reco_defs)

theorem reindex_all_witness:
  "snd (generate_embeddings_for_all_products exact_engine
          (fail_at (InsertEmbedding 2) DatabaseError) indexed_world) = indexed_world \<and>
   snd (generate_embeddings_for_all_products approx_engine no_faults fresh_world) =
     fresh_world\<lparr>collection :=
       map (entry_of approx_engine) (filter described (products fresh_world))\<rparr>"
proof -
  have ue: "\<not> use_chroma exact_engine" by (simp add: exact_engine_def)
  have ua: "use_chroma approx_engine" by (simp add: approx_engine_def)
  have ne: "filter described (products fresh_world) \<noteq> []"
    by (simp add: sample_defs described_def)
  have nf: "no_faults ChromaGet = None" "no_faults ChromaDelete = None"
    by (simp_all add: no_faults_def)
  have r1: "generate_embeddings_for_all_products exact_engine
          (fail_at (InsertEmbedding 2) DatabaseError) indexed_world =
        (fst (generate_embeddings_for_all_products exact_engine
          (fail_at (InsertEmbedding 2) DatabaseError) indexed_world),
         snd (generate_embeddings_for_all_products exact_engine
          (fail_at (InsertEmbedding 2) DatabaseError) indexed_world))"
    by simp
  have r2: "generate_embeddings_for_all_products approx_engine no_faults fresh_world =
        (fst (generate_embeddings_for_all_products approx_engine no_faults fresh_world),
         snd (generate_embeddings_for_all_products approx_engine no_faults fresh_world))"
    by simp
  from reindex_all_outcomes[OF r1] ue exact_rebuild_fails
  have a: "snd (generate_embeddings_for_all_products exact_engine
          (fail_at (InsertEmbedding 2) DatabaseError) indexed_world) = indexed_world"
    by simp
  from reindex_all_outcomes[OF r2] ua approx_rebuild_succeeds ne nf
  have b: "snd (generate_embeddings_for_all_products approx_engine no_faults fresh_world) =
     fresh_world\<lparr>collection :=
       map (entry_of approx_engine) (filter described (products fresh_world))\<rparr>"
    by simp
  from a b show ?thesis by (rule conjI)
qed

text \<open>
  Claim C8 as stated fails.  On the approximate backend a rebuild of the indexed world
  whose \<open>add\<close> fails raises the error and leaves the collection empty: neither the
  prior state nor the rebuilt one.  And a rebuild over a catalog without a described
  product succeeds and leaves a stale vector in the index.
\<close>

theorem reindex_all_not_atomic:
  "generate_embeddings_for_all_products approx_engine (fail_at ChromaAdd ChromaError)
     indexed_world = (Inl ChromaError, indexed_world\<lparr>collection := []\<rparr>) \<and>
   collection indexed_world \<noteq> [] \<and>
   generate_embeddings_for_all_products exact_engine no_faults stale_world
     = (Inr (), stale_world) \<and>
   product_embeddings stale_world \<noteq> []"
  by (simp add: write_defs sample_defs reco_defs stale_world_def)

subsection \<open>The incremental write\<close>

text \<open>
  Claim C9 at its failing input.  On the exact backend \<open>add_product_embedding\<close> for the
  described product 1 raises \<open>AttributeError\<close> and stores nothing, the first time and
  the second time: the index holds no vector for the product, not one.
\<close>

theorem index_one_fails_on_exact_backend:
  "select_described (products fresh_world) 1 \<noteq> None \<and>
   add_product_embedding exact_engine no_faults fresh_world 1 = (Inl AttributeError, fresh_world) \<and>
   vectors_for exact_engine
     (snd (add_product_embedding exact_engine no_faults
             (snd (add_product_embedding exact_engine no_faults fresh_world 1)) 1)) 1 = []"
  by (simp add: write_defs sample_defs reco_defs)

text \<open>On the exact backend the incremental write never changes the world.\<close>

lemma index_one_exact_backend_no_write:
  "\<not> use_chroma eng \<Longrightarrow> snd (add_product_embedding eng fl w pid) = w"
  by (auto simp: add_product_embedding_def call_def split: option.splits sum.splits)

text \<open>
  On the approximate backend a successful incremental write, repeated, succeeds again
  and leaves the collection as the first write left it; after it the collection holds
  a vector for the product whenever the product has a description.
\<close>

lemma index_one_approx_backend_repeat:
  assumes "use_chroma eng" and "add_product_embedding eng fl w pid = (Inr (), w1)"
  shows "add_product_embedding eng fl w1 pid = (Inr (), w1)"
proof (cases "select_described (products w) pid")
  case None
  with assms show ?thesis
    by (auto simp: add_product_embedding_def call_def split: option.splits)
next
  case (Some r)
  with assms have w1: "w1 = w\<lparr>collection := collection w @
        filter (\<lambda>e. entry_id e \<notin> entry_id ` set (collection w))
          [(entry_of eng r)\<lparr>entry_id := pid\<rparr>]\<rparr>"
    and ok: "fl SelectTarget = None" "fl Encode = None" "fl ChromaAdd = None"
    and rated: "md_rating (entry_metadata (entry_of eng r)) \<noteq> None"
    by (auto simp: add_product_embedding_def call_def chroma_add_def
        split: option.splits sum.splits if_splits)
  have "products w1 = products w" by (simp add: w1)
  with Some have sel: "select_described (products w1) pid = Some r" by simp
  have "pid \<in> entry_id ` set (collection w1)" by (auto simp: w1)
  then have "filter (\<lambda>e. entry_id e \<notin> entry_id ` set (collection w1))
          [(entry_of eng r)\<lparr>entry_id := pid\<rparr>] = []"
    by simp
  with assms(1) sel ok rated show ?thesis
    by (simp add: add_product_embedding_def call_def chroma_add_def)
qed

end
